theory Spec2Isabelle
  imports Main "HOL-Library.AList"
begin

section \<open>Data model (plaidapi.py)\<close>

text \<open>
  \<^verbatim>\<open>datetime.date\<close> values are only stored, compared and passed on; they are
  modelled by their day ordinal.
\<close>

type_synonym date = int

text \<open>\<^verbatim>\<open>plaid.ApiException\<close>: the exception of the provider client.\<close>

record api_exception =
  reason :: string
  status :: int
  body :: string

text \<open>
  \<^verbatim>\<open>class PlaidError(Exception)\<close> and its three subclasses. \<^verbatim>\<open>PlaidError\<close>
  itself is never raised; \<^verbatim>\<open>raise_plaid\<close> raises one of the subclasses.
\<close>

datatype plaid_error =
    PlaidUnknownError api_exception
  | PlaidNoApplicableAccounts api_exception
  | PlaidAccountUpdateNeeded api_exception

text \<open>
  The Python exceptions a run can meet: the client's \<^verbatim>\<open>plaid.ApiException\<close>, a
  provider error (caught by \<^verbatim>\<open>except plaidapi.PlaidError\<close>), and the two built-in
  exceptions that the synchronizer's own code can raise (\<^verbatim>\<open>len\<close> of \<^verbatim>\<open>None\<close> or
  of an int, a missing dict key).
\<close>

datatype exn =
    ApiException api_exception
  | PlaidError plaid_error
  | TypeError
  | KeyError string

text \<open>\<^verbatim>\<open>class Transaction\<close>; the amount is kept in minor units.\<close>

record transaction =
  account_id :: string
  date :: date
  transaction_id :: string
  pending :: bool
  merchant_name :: string
  amount :: int
  currency_code :: string
  personal_finance_category :: string

text \<open>\<^verbatim>\<open>class AccountInfo\<close>; timestamps are optional in the provider's reply.\<close>

record account_info =
  item_id :: string
  institution_id :: string
  ts_consent_expiration :: "int option"
  ts_last_failed_update :: "int option"
  ts_last_successful_update :: "int option"

text \<open>
  \<^verbatim>\<open>class AccountBalance\<close>. Its fields \<^verbatim>\<open>account_id\<close> and \<^verbatim>\<open>account_name\<close>
  carry a prefix here, the names being taken by the transaction and the synchronizer.
\<close>

record account_balance =
  balance_account_id :: string
  balance_account_name :: string
  account_type :: string
  account_subtype :: string
  account_number :: string
  balance_current :: "int option"
  balance_available :: "int option"
  balance_limit :: "int option"
  balance_currency_code :: string

section \<open>The provider client\<close>

text \<open>
  \<^verbatim>\<open>TransactionsGetRequest\<close> with its options, as \<^verbatim>\<open>get_transactions\<close> builds it.
\<close>

record transactions_get_request =
  req_access_token :: string
  req_start_date :: date
  req_end_date :: date
  req_count :: nat
  req_offset :: nat
  req_account_ids :: "string list option"

text \<open>The reply of \<^verbatim>\<open>/transactions/get\<close>, already parsed into transactions.\<close>

record transactions_get_response =
  response_transactions :: "transaction list"
  total_transactions :: int

text \<open>
  The reply of \<^verbatim>\<open>/transactions/sync\<close>; a missing \<^verbatim>\<open>added\<close>, \<^verbatim>\<open>modified\<close> or
  \<^verbatim>\<open>removed\<close> key reads as the empty list (\<^verbatim>\<open>response_dict.get(..., [])\<close>).
\<close>

record transactions_sync_response =
  response_added :: "transaction list"
  response_modified :: "transaction list"
  response_removed :: "string list"
  next_cursor :: string
  has_more :: bool

text \<open>
  \<^verbatim>\<open>self.client\<close>: each endpoint answers a request with a reply or raises
  \<^verbatim>\<open>plaid.ApiException\<close>. The client is an external collaborator; it is a
  parameter of the model.
\<close>

record plaid_client =
  item_get :: "string \<Rightarrow> api_exception + account_info"
  accounts_balance_get :: "string \<Rightarrow> api_exception + account_balance list"
  transactions_get :: "transactions_get_request \<Rightarrow> api_exception + transactions_get_response"
  transactions_sync :: "string \<Rightarrow> string option \<Rightarrow> api_exception + transactions_sync_response"

section \<open>plaidapi.py: error wrapping\<close>

definition raise_plaid :: "api_exception \<Rightarrow> exn" where
  "raise_plaid ex =
     (if reason ex = ''NO_ACCOUNTS'' then PlaidError (PlaidNoApplicableAccounts ex)
      else if reason ex = ''ITEM_LOGIN_REQUIRED'' then PlaidError (PlaidAccountUpdateNeeded ex)
      else PlaidError (PlaidUnknownError ex))"

text \<open>
  The decorator \<^verbatim>\<open>wrap_plaid_error\<close>: it catches \<^verbatim>\<open>plaid.ApiException\<close> only; any
  other exception of the wrapped method passes through.
\<close>

definition wrap_plaid_error :: "exn + 'a \<Rightarrow> exn + 'a" where
  "wrap_plaid_error r =
     (case r of
        Inl (ApiException ex) \<Rightarrow> Inl (raise_plaid ex)
      | Inl e \<Rightarrow> Inl e
      | Inr v \<Rightarrow> Inr v)"

definition get_item_info :: "plaid_client \<Rightarrow> string \<Rightarrow> exn + account_info" where
  "get_item_info client access_token =
     wrap_plaid_error (map_sum ApiException id (item_get client access_token))"

definition get_account_balance :: "plaid_client \<Rightarrow> string \<Rightarrow> exn + account_balance list" where
  "get_account_balance client access_token =
     wrap_plaid_error (map_sum ApiException id (accounts_balance_get client access_token))"

section \<open>plaidapi.py: the window-mode page loop\<close>

text \<open>
  The \<^verbatim>\<open>while True\<close> loop of \<^verbatim>\<open>get_transactions\<close>. It has no iteration bound of
  its own, so the model takes fuel: one unit per page request, \<open>None\<close> when the fuel
  runs out. The last argument logs the requests sent to the client, in order. The
  page size \<^verbatim>\<open>count\<close> is a local constant of the source (500), here an argument.
  The only status callback this method is given (by \<^verbatim>\<open>sync\<close>, when verbose) formats
  its two int arguments with \<^verbatim>\<open>%d\<close> and prints them; it is not modelled.
\<close>

fun get_transactions_loop ::
  "nat \<Rightarrow> plaid_client \<Rightarrow> string \<Rightarrow> date \<Rightarrow> date \<Rightarrow> string list option \<Rightarrow> nat \<Rightarrow>
   transaction list \<Rightarrow> nat \<Rightarrow> transactions_get_request list \<Rightarrow>
   (api_exception + transaction list \<times> transactions_get_request list) option" where
  "get_transactions_loop 0 client access_token start_date end_date account_ids count
     ret offset sent = None"
| "get_transactions_loop (Suc fuel) client access_token start_date end_date account_ids count
     ret offset sent =
     (let req = \<lparr> req_access_token = access_token, req_start_date = start_date,
                  req_end_date = end_date, req_count = count, req_offset = offset,
                  req_account_ids =
                    (case account_ids of None \<Rightarrow> None | Some [] \<Rightarrow> None
                     | Some (a # as) \<Rightarrow> Some (a # as)) \<rparr>
      in case transactions_get client req of
           Inl ex \<Rightarrow> Some (Inl ex)
         | Inr response \<Rightarrow>
             (let transactions_batch = response_transactions response;
                  ret' = ret @ transactions_batch
              in if length transactions_batch < count
                    \<or> total_transactions response \<le> int (length ret')
                 then Some (Inr (ret', sent @ [req]))
                 else get_transactions_loop fuel client access_token start_date end_date
                        account_ids count ret' (offset + count) (sent @ [req])))"

text \<open>The loop from its initial state, with the source's page size.\<close>

definition get_transactions_requests ::
  "nat \<Rightarrow> plaid_client \<Rightarrow> string \<Rightarrow> date \<Rightarrow> date \<Rightarrow> string list option \<Rightarrow>
   (api_exception + transaction list \<times> transactions_get_request list) option" where
  "get_transactions_requests fuel client access_token start_date end_date account_ids =
     get_transactions_loop fuel client access_token start_date end_date account_ids 500 [] 0 []"

text \<open>\<^verbatim>\<open>PlaidAPI.get_transactions\<close>: the collected list, errors wrapped.\<close>

definition get_transactions ::
  "nat \<Rightarrow> plaid_client \<Rightarrow> string \<Rightarrow> date \<Rightarrow> date \<Rightarrow> string list option \<Rightarrow>
   (exn + transaction list) option" where
  "get_transactions fuel client access_token start_date end_date account_ids =
     map_option (\<lambda>r. wrap_plaid_error (map_sum ApiException fst r))
       (get_transactions_requests fuel client access_token start_date end_date account_ids)"

section \<open>plaidapi.py: the cursor-mode page loop\<close>

text \<open>
  The dict returned by \<^verbatim>\<open>sync_transactions\<close>. Its cursor is the
  \<^verbatim>\<open>next_cursor\<close> of the last page: the loop body has run at least once.
\<close>

record sync_result =
  added :: "transaction list"
  modified :: "transaction list"
  removed :: "string list"
  cursor :: string
  has_next :: bool

text \<open>
  A status callback of \<^verbatim>\<open>sync_transactions\<close>. The method calls it after every page
  with \<^verbatim>\<open>len(all_added)\<close>, \<^verbatim>\<open>len(all_modified)\<close>, \<^verbatim>\<open>len(all_removed)\<close> and
  \<^verbatim>\<open>has_next\<close>. What such a call prints is not modelled; the exception it raises, if
  any, is its value here.
\<close>

type_synonym status_callback = "nat \<Rightarrow> nat \<Rightarrow> nat \<Rightarrow> bool \<Rightarrow> exn option"

text \<open>
  The \<^verbatim>\<open>while has_next\<close> loop of \<^verbatim>\<open>sync_transactions\<close>; \<^verbatim>\<open>has_next\<close> starts
  true, so the body runs at least once. One unit of fuel per page request. An exception
  of the client or of the status callback leaves the loop. The last argument logs the
  pages received from the client, in order.
\<close>

fun sync_transactions_loop ::
  "nat \<Rightarrow> plaid_client \<Rightarrow> string \<Rightarrow> status_callback option \<Rightarrow>
   transaction list \<Rightarrow> transaction list \<Rightarrow> string list \<Rightarrow>
   string option \<Rightarrow> transactions_sync_response list \<Rightarrow>
   (exn + sync_result \<times> transactions_sync_response list) option" where
  "sync_transactions_loop 0 client access_token status_callback all_added all_modified
     all_removed current_cursor received = None"
| "sync_transactions_loop (Suc fuel) client access_token status_callback all_added all_modified
     all_removed current_cursor received =
     (case transactions_sync client access_token current_cursor of
        Inl ex \<Rightarrow> Some (Inl (ApiException ex))
      | Inr response \<Rightarrow>
          (let all_added' = all_added @ response_added response;
               all_modified' = all_modified @ response_modified response;
               all_removed' = all_removed @ response_removed response;
               current_cursor' = Some (next_cursor response);
               has_next' = has_more response
           in case (case status_callback of
                      None \<Rightarrow> None
                    | Some callback \<Rightarrow>
                        callback (length all_added') (length all_modified')
                          (length all_removed') has_next') of
                Some ex \<Rightarrow> Some (Inl ex)
              | None \<Rightarrow>
                  if has_next'
                  then sync_transactions_loop fuel client access_token status_callback
                         all_added' all_modified' all_removed' current_cursor'
                         (received @ [response])
                  else Some (Inr (\<lparr> added = all_added', modified = all_modified',
                                    removed = all_removed', cursor = next_cursor response,
                                    has_next = has_next' \<rparr>, received @ [response]))))"

text \<open>The loop from its initial state: the result dict and the pages received.\<close>

definition sync_transactions_pages ::
  "nat \<Rightarrow> plaid_client \<Rightarrow> string \<Rightarrow> string option \<Rightarrow> status_callback option \<Rightarrow>
   (exn + sync_result \<times> transactions_sync_response list) option" where
  "sync_transactions_pages fuel client access_token cursor0 status_callback =
     sync_transactions_loop fuel client access_token status_callback [] [] [] cursor0 []"

text \<open>\<^verbatim>\<open>PlaidAPI.sync_transactions\<close>: the result dict, errors wrapped.\<close>

definition sync_transactions ::
  "nat \<Rightarrow> plaid_client \<Rightarrow> string \<Rightarrow> string option \<Rightarrow> status_callback option \<Rightarrow>
   (exn + sync_result) option" where
  "sync_transactions fuel client access_token cursor0 status_callback =
     map_option (\<lambda>r. wrap_plaid_error (map_sum id fst r))
       (sync_transactions_pages fuel client access_token cursor0 status_callback)"

section \<open>The store\<close>

text \<open>The write methods of \<^verbatim>\<open>TransactionsDB\<close> the synchronizer can call.\<close>

datatype db_call =
    SaveItemInfo account_info
  | SaveBalance string account_balance
  | SaveTransaction transaction
  | SaveSyncCursor string string
  | ArchiveTransactions "string list"

text \<open>
  Modelled from the spec: the module \<^verbatim>\<open>transactionsdb\<close> (class \<^verbatim>\<open>TransactionsDB\<close>)
  is not among the sources. The store holds one item-info row per item id, the balance
  snapshots, the transactions by id, the archived ids and one cursor per item id.
  \<open>has_save_sync_cursor\<close> is what \<^verbatim>\<open>hasattr(self.db, "save_sync_cursor")\<close> reads.
\<close>

record transactions_db =
  stored_item_infos :: "(string \<times> account_info) list"
  stored_balances :: "(string \<times> account_balance) list"
  stored_transactions :: "(string \<times> transaction) list"
  archived_ids :: "string list"
  stored_cursors :: "(string \<times> string) list"
  has_save_sync_cursor :: bool

text \<open>Modelled from the spec: \<^verbatim>\<open>get_last_sync_cursor(item_id) -> cursor | null\<close>.\<close>

definition get_last_sync_cursor :: "transactions_db \<Rightarrow> string \<Rightarrow> string option" where
  "get_last_sync_cursor db item = map_of (stored_cursors db) item"

text \<open>
  Modelled from the spec: \<^verbatim>\<open>get_transaction_ids(start_date, end_date, account_ids)\<close>,
  the ids already stored for the window and the given accounts.
\<close>

definition get_transaction_ids ::
  "transactions_db \<Rightarrow> date \<Rightarrow> date \<Rightarrow> string list \<Rightarrow> string list" where
  "get_transaction_ids db start_date end_date account_ids =
     map fst (filter (\<lambda>(tid, t). start_date \<le> date t \<and> date t \<le> end_date
                                  \<and> account_id t \<in> set account_ids)
                (stored_transactions db))"

text \<open>Modelled from the spec: \<^verbatim>\<open>fetch_transactions_by_id(ids) -> [Transaction]\<close>.\<close>

definition fetch_transactions_by_id :: "transactions_db \<Rightarrow> string list \<Rightarrow> transaction list" where
  "fetch_transactions_by_id db ids =
     map snd (filter (\<lambda>(tid, t). tid \<in> set ids) (stored_transactions db))"

text \<open>
  Modelled from the spec: the effect of one write call on the store.
  \<^verbatim>\<open>save_transaction\<close> is an upsert by id, \<^verbatim>\<open>save_balance\<close> inserts a snapshot.
\<close>

fun db_exec :: "db_call \<Rightarrow> transactions_db \<Rightarrow> transactions_db" where
  "db_exec (SaveItemInfo info) db =
     db\<lparr>stored_item_infos := AList.update (item_id info) info (stored_item_infos db)\<rparr>"
| "db_exec (SaveBalance item b) db =
     db\<lparr>stored_balances := stored_balances db @ [(item, b)]\<rparr>"
| "db_exec (SaveTransaction t) db =
     db\<lparr>stored_transactions := AList.update (transaction_id t) t (stored_transactions db)\<rparr>"
| "db_exec (SaveSyncCursor item c) db =
     db\<lparr>stored_cursors := AList.update item c (stored_cursors db)\<rparr>"
| "db_exec (ArchiveTransactions ids) db =
     db\<lparr>archived_ids := archived_ids db @ ids\<rparr>"

text \<open>The store after a sequence of write calls, in order.\<close>

definition db_run :: "db_call list \<Rightarrow> transactions_db \<Rightarrow> transactions_db" where
  "db_run calls db = fold db_exec calls db"

section \<open>plaid-sync.py: the synchronizer\<close>

record SyncCounts =
  new :: nat
  new_pending :: nat
  archived :: nat
  archived_pending :: nat
  total_fetched :: nat
  accounts :: nat

text \<open>
  The fields of \<^verbatim>\<open>PlaidSynchronizer\<close>. \<^verbatim>\<open>self.transactions\<close> is a Python dict: an
  association list in insertion order with distinct keys. \<^verbatim>\<open>self.db\<close> and
  \<^verbatim>\<open>self.plaid\<close> are passed to the methods separately.
\<close>

record synchronizer =
  transactions :: "(string \<times> transaction) list"
  account_name :: string
  access_token :: string
  plaid_error :: "plaid_error option"
  item_info :: "account_info option"
  counts :: SyncCounts

definition PlaidSynchronizer_init :: "string \<Rightarrow> string \<Rightarrow> synchronizer" where
  "PlaidSynchronizer_init name token =
     \<lparr> transactions = [], account_name = name, access_token = token,
       plaid_error = None, item_info = None,
       counts = \<lparr> new = 0, new_pending = 0, archived = 0, archived_pending = 0,
                  total_fetched = 0, accounts = 0 \<rparr> \<rparr>"

text \<open>
  \<^verbatim>\<open>dict.update\<close> with the pairs of another dict or sequence: a key already present
  keeps its position and takes the new value, a new key goes to the end.
\<close>

definition dict_update :: "('k \<times> 'v) list \<Rightarrow> ('k \<times> 'v) list \<Rightarrow> ('k \<times> 'v) list" where
  "dict_update d ps = fold (\<lambda>(k, v). AList.update k v) ps d"

text \<open>\<^verbatim>\<open>dict(pairs)\<close>.\<close>

definition dict_of :: "('k \<times> 'v) list \<Rightarrow> ('k \<times> 'v) list" where
  "dict_of ps = dict_update [] ps"

definition add_transactions :: "synchronizer \<Rightarrow> transaction list \<Rightarrow> synchronizer" where
  "add_transactions self ts =
     self\<lparr>transactions :=
       dict_update (transactions self) (dict_of (map (\<lambda>t. (transaction_id t, t)) ts))\<rparr>"

text \<open>
  \<^verbatim>\<open>self.transactions.get(tid)\<close> is an object without \<^verbatim>\<open>__bool__\<close> or
  \<^verbatim>\<open>__len__\<close>, so it is truthy exactly when the key is present.
\<close>

definition count_pending :: "synchronizer \<Rightarrow> string list \<Rightarrow> nat" where
  "count_pending self tids =
     length (filter (\<lambda>tid. case map_of (transactions self) tid of
                             None \<Rightarrow> False | Some t \<Rightarrow> pending t) tids)"

text \<open>
  How a run of \<^verbatim>\<open>sync\<close> or \<^verbatim>\<open>sync_with_cursor\<close> ends: it returns, with the
  synchronizer as it then is, or an exception leaves the method. Both carry the store
  write calls made by the run, in order.
\<close>

datatype outcome =
    Returned synchronizer "db_call list"
  | Raised exn "db_call list"

text \<open>
  The \<^verbatim>\<open>except plaidapi.PlaidError as ex\<close> clause of both methods, for an
  exception raised when the run has made the write calls \<open>calls\<close>.
\<close>

definition except_PlaidError :: "synchronizer \<Rightarrow> db_call list \<Rightarrow> exn \<Rightarrow> outcome" where
  "except_PlaidError self calls ex =
     (case ex of
        PlaidError e \<Rightarrow> Returned (self\<lparr>plaid_error := Some e\<rparr>) calls
      | _ \<Rightarrow> Raised ex calls)"

text \<open>\<^verbatim>\<open>balances = None; if fetch_balances: balances = ...\<close>\<close>

definition fetch_balances_opt ::
  "plaid_client \<Rightarrow> string \<Rightarrow> bool \<Rightarrow> exn + account_balance list option" where
  "fetch_balances_opt client token fetch_balances =
     (if fetch_balances then map_sum id Some (get_account_balance client token)
      else Inr None)"

text \<open>\<^verbatim>\<open>if balances: for balance in balances: self.db.save_balance(...)\<close>\<close>

definition save_balances :: "string \<Rightarrow> account_balance list option \<Rightarrow> db_call list" where
  "save_balances item balances =
     (case balances of None \<Rightarrow> [] | Some bs \<Rightarrow> map (SaveBalance item) bs)"

text \<open>
  A Python \<^verbatim>\<open>set\<close> is modelled by a list without duplicates: \<^verbatim>\<open>set(xs)\<close> is
  \<open>remdups xs\<close>, \<^verbatim>\<open>len\<close> is \<open>length\<close>, and iteration follows the list (Python leaves
  the order open).
\<close>

definition set_difference :: "'a list \<Rightarrow> 'a list \<Rightarrow> 'a list" where
  "set_difference xs ys = filter (\<lambda>x. x \<notin> set ys) xs"

text \<open>
  \<^verbatim>\<open>for tid in tids_new: self.db.save_transaction(self.transactions[tid])\<close>;
  a missing key raises \<^verbatim>\<open>KeyError\<close> after the calls made so far.
\<close>

fun save_transactions_by_id ::
  "(string \<times> transaction) list \<Rightarrow> string list \<Rightarrow> db_call list \<Rightarrow>
   exn \<times> db_call list + db_call list" where
  "save_transactions_by_id d [] calls = Inr calls"
| "save_transactions_by_id d (tid # tids) calls =
     (case map_of d tid of
        None \<Rightarrow> Inl (KeyError tid, calls)
      | Some t \<Rightarrow> save_transactions_by_id d tids (calls @ [SaveTransaction t]))"

text \<open>
  The status callback \<^verbatim>\<open>sync_with_cursor\<close> passes when verbose:
  \<^verbatim>\<open>lambda added, modified, removed, has_next: print(f"{len(added)} added, ...")\<close>.
  \<^verbatim>\<open>sync_transactions\<close> calls it with ints, and \<^verbatim>\<open>len\<close> of an int raises
  \<^verbatim>\<open>TypeError\<close>.
\<close>

definition verbose_status_callback :: status_callback where
  "verbose_status_callback added_count modified_count removed_count has_next_flag =
     Some TypeError"

text \<open>
  \<^verbatim>\<open>PlaidSynchronizer.sync_with_cursor\<close>. With \<^verbatim>\<open>verbose\<close> set the page loop gets
  the status callback above, so the run leaves with \<^verbatim>\<open>TypeError\<close> once the first
  page has arrived; the other \<^verbatim>\<open>verbose\<close> branches only print. The archive call on
  the removed ids is commented out in the source, so no such call is made.
\<close>

definition sync_with_cursor ::
  "nat \<Rightarrow> synchronizer \<Rightarrow> plaid_client \<Rightarrow> transactions_db \<Rightarrow> bool \<Rightarrow> bool \<Rightarrow> outcome option" where
  "sync_with_cursor fuel self client db fetch_balances verbose =
     (case get_item_info client (access_token self) of
        Inl ex \<Rightarrow> Some (except_PlaidError self [] ex)
      | Inr info \<Rightarrow>
          (let self1 = self\<lparr>item_info := Some info\<rparr>
           in case fetch_balances_opt client (access_token self1) fetch_balances of
                Inl ex \<Rightarrow> Some (except_PlaidError self1 [] ex)
              | Inr balances \<Rightarrow>
                  (let last_cursor = get_last_sync_cursor db (item_id info)
                   in case sync_transactions fuel client (access_token self1) last_cursor
                             (if verbose then Some verbose_status_callback else None) of
                        None \<Rightarrow> None
                      | Some (Inl ex) \<Rightarrow> Some (except_PlaidError self1 [] ex)
                      | Some (Inr sync_result) \<Rightarrow>
                          (let added_transactions = added sync_result;
                               modified_transactions = modified sync_result;
                               removed_transaction_ids = removed sync_result;
                               self2 = add_transactions
                                         (add_transactions self1 added_transactions)
                                         modified_transactions;
                               account_ids = remdups (map account_id
                                 (added_transactions @ modified_transactions));
                               self3 = self2\<lparr>counts :=
                                 \<lparr> new = length added_transactions,
                                   new_pending = count_pending self2
                                     (map transaction_id added_transactions),
                                   archived = length removed_transaction_ids,
                                   archived_pending = 0,
                                   total_fetched = length added_transactions
                                     + length modified_transactions,
                                   accounts = length account_ids \<rparr>\<rparr>
                           in Some (Returned self3
                                (SaveItemInfo info
                                 # save_balances (item_id info) balances
                                 @ map SaveTransaction added_transactions
                                 @ map SaveTransaction modified_transactions
                                 @ (if has_save_sync_cursor db
                                    then [SaveSyncCursor (item_id info) (cursor sync_result)]
                                    else [])))))))"

text \<open>
  The window-mode body of \<^verbatim>\<open>PlaidSynchronizer.sync\<close> from the id sets on
  (source lines 304 to 310): the accounts seen, the ids stored for the window, the ids
  fetched, and the two differences.
\<close>

record window_sets =
  account_ids :: "string list"
  tids_existing :: "string list"
  tids_fetched :: "string list"
  tids_new :: "string list"
  tids_to_archive :: "string list"

definition reconcile_window ::
  "synchronizer \<Rightarrow> transactions_db \<Rightarrow> date \<Rightarrow> date \<Rightarrow> window_sets" where
  "reconcile_window self db start_date end_date =
     (let account_ids = remdups (map (\<lambda>(tid, t). account_id t) (transactions self));
          tids_existing = remdups (get_transaction_ids db start_date end_date account_ids);
          tids_fetched = remdups (map fst (transactions self));
          tids_new = set_difference tids_fetched tids_existing;
          tids_to_archive = set_difference tids_existing tids_fetched
      in \<lparr> account_ids = account_ids, tids_existing = tids_existing,
           tids_fetched = tids_fetched, tids_new = tids_new,
           tids_to_archive = tids_to_archive \<rparr>)"

text \<open>
  \<^verbatim>\<open>PlaidSynchronizer.sync\<close>. With \<^verbatim>\<open>verbose\<close> set and no balances fetched,
  \<^verbatim>\<open>len(balances)\<close> in the last progress message raises \<^verbatim>\<open>TypeError\<close>, before
  any write. The archive call is commented out in the source.
\<close>

definition sync ::
  "nat \<Rightarrow> synchronizer \<Rightarrow> plaid_client \<Rightarrow> transactions_db \<Rightarrow> date \<Rightarrow> date \<Rightarrow>
   bool \<Rightarrow> bool \<Rightarrow> bool \<Rightarrow> outcome option" where
  "sync fuel self client db start_date end_date fetch_balances verbose use_cursor_sync =
     (if use_cursor_sync then sync_with_cursor fuel self client db fetch_balances verbose
      else
       (case get_item_info client (access_token self) of
          Inl ex \<Rightarrow> Some (except_PlaidError self [] ex)
        | Inr info \<Rightarrow>
            (let self1 = self\<lparr>item_info := Some info\<rparr>
             in case fetch_balances_opt client (access_token self1) fetch_balances of
                  Inl ex \<Rightarrow> Some (except_PlaidError self1 [] ex)
                | Inr balances \<Rightarrow>
                    (case get_transactions fuel client (access_token self1)
                            start_date end_date None of
                       None \<Rightarrow> None
                     | Some (Inl ex) \<Rightarrow> Some (except_PlaidError self1 [] ex)
                     | Some (Inr fetched) \<Rightarrow>
                         (let self2 = add_transactions self1 fetched;
                              w = reconcile_window self2 db start_date end_date;
                              self3 = add_transactions self2
                                        (fetch_transactions_by_id db (tids_to_archive w));
                              self4 = self3\<lparr>counts :=
                                \<lparr> new = length (tids_new w),
                                  new_pending = count_pending self3 (tids_new w),
                                  archived = length (tids_to_archive w),
                                  archived_pending = count_pending self3 (tids_to_archive w),
                                  total_fetched = length (tids_fetched w),
                                  accounts = length (account_ids w) \<rparr>\<rparr>
                          in if verbose \<and> balances = None
                             then Some (except_PlaidError self4 [] TypeError)
                             else
                              (case save_transactions_by_id (transactions self4) (tids_new w)
                                      (SaveItemInfo info
                                       # save_balances (item_id info) balances) of
                                 Inl (ex, calls) \<Rightarrow> Some (except_PlaidError self4 calls ex)
                               | Inr calls \<Rightarrow> Some (Returned self4 calls)))))))"

text \<open>The store write calls of a run.\<close>

fun calls_of :: "outcome \<Rightarrow> db_call list" where
  "calls_of (Returned self calls) = calls"
| "calls_of (Raised ex calls) = calls"

section \<open>Example providers and stores\<close>

definition example_transaction :: "string \<Rightarrow> string \<Rightarrow> bool \<Rightarrow> int \<Rightarrow> transaction" where
  "example_transaction tid acct p amt =
     \<lparr> account_id = acct, date = 5, transaction_id = tid, pending = p,
       merchant_name = ''shop'', amount = amt, currency_code = ''USD'',
       personal_finance_category = ''GENERAL'' \<rparr>"

definition example_info :: account_info where
  "example_info = \<lparr> item_id = ''item'', institution_id = ''ins'',
     ts_consent_expiration = None, ts_last_failed_update = None,
     ts_last_successful_update = None \<rparr>"

definition example_api_exception :: api_exception where
  "example_api_exception = \<lparr> reason = ''INTERNAL_SERVER_ERROR'', status = 500, body = ''failure'' \<rparr>"

definition example_db :: transactions_db where
  "example_db = \<lparr> stored_item_infos = [], stored_balances = [],
     stored_transactions =
       [(''A'', example_transaction ''A'' ''acct'' False 10),
        (''B'', example_transaction ''B'' ''acct'' True 20),
        (''C'', example_transaction ''C'' ''acct'' False 30)],
     archived_ids = [], stored_cursors = [(''item'', ''c0'')],
     has_save_sync_cursor = True \<rparr>"

text \<open>
  The cursor-mode example of the spec: two pages, the second modifies \<open>T2\<close> and
  removes \<open>T3\<close>.
\<close>

definition cursor_client :: plaid_client where
  "cursor_client = \<lparr>
     item_get = (\<lambda>tok. Inr example_info),
     accounts_balance_get = (\<lambda>tok. Inr []),
     transactions_get = (\<lambda>req. Inl example_api_exception),
     transactions_sync = (\<lambda>tok c.
        if c = Some ''c0'' then
          Inr \<lparr> response_added = [example_transaction ''T1'' ''acct'' True 1,
                                   example_transaction ''T2'' ''acct'' False 2],
                response_modified = [], response_removed = [],
                next_cursor = ''c1'', has_more = True \<rparr>
        else if c = Some ''c1'' then
          Inr \<lparr> response_added = [],
                response_modified = [example_transaction ''T2'' ''acct'' False 3],
                response_removed = [''T3''],
                next_cursor = ''c2'', has_more = False \<rparr>
        else Inl example_api_exception) \<rparr>"

text \<open>A three-page change stream whose second page request fails.\<close>

definition failing_client :: plaid_client where
  "failing_client = \<lparr>
     item_get = (\<lambda>tok. Inr example_info),
     accounts_balance_get = (\<lambda>tok. Inr []),
     transactions_get = (\<lambda>req. Inl example_api_exception),
     transactions_sync = (\<lambda>tok c.
        if c = Some ''c0'' then
          Inr \<lparr> response_added = [example_transaction ''T1'' ''acct'' True 1],
                response_modified = [], response_removed = [],
                next_cursor = ''c1'', has_more = True \<rparr>
        else if c = Some ''c2'' then
          Inr \<lparr> response_added = [example_transaction ''T4'' ''acct'' True 1],
                response_modified = [], response_removed = [],
                next_cursor = ''c3'', has_more = False \<rparr>
        else Inl example_api_exception) \<rparr>"

text \<open>
  The window-mode example of the spec: \<open>A\<close>, \<open>B\<close> (pending) and \<open>C\<close> are stored;
  the provider returns \<open>B\<close> (now settled, amount changed), \<open>C\<close> and a pending \<open>D\<close>.
\<close>

definition window_client :: plaid_client where
  "window_client = \<lparr>
     item_get = (\<lambda>tok. Inr example_info),
     accounts_balance_get = (\<lambda>tok. Inr []),
     transactions_get = (\<lambda>req.
        if req_offset req = 0 then
          Inr \<lparr> response_transactions =
                  [example_transaction ''B'' ''acct'' False 25,
                   example_transaction ''C'' ''acct'' False 30,
                   example_transaction ''D'' ''acct'' True 40],
                total_transactions = 3 \<rparr>
        else Inl example_api_exception),
     transactions_sync = (\<lambda>tok c. Inl example_api_exception) \<rparr>"

text \<open>A provider whose transaction endpoints always fail.\<close>

definition error_client :: plaid_client where
  "error_client = \<lparr>
     item_get = (\<lambda>tok. Inr example_info),
     accounts_balance_get = (\<lambda>tok. Inr []),
     transactions_get = (\<lambda>req. Inl example_api_exception),
     transactions_sync = (\<lambda>tok c. Inl example_api_exception) \<rparr>"

text \<open>
  Following the words of the spec (claim C4), for comparison with the source: the
  version of an id on the latest page that reports it, in its added or modified list.
\<close>

definition spec_latest_page_version ::
  "transactions_sync_response list \<Rightarrow> string \<Rightarrow> transaction option" where
  "spec_latest_page_version pages k =
     (case filter (\<lambda>t. transaction_id t = k)
             (concat (map (\<lambda>p. response_added p @ response_modified p) pages)) of
        [] \<Rightarrow> None
      | t # ts \<Rightarrow> Some (last (t # ts)))"

text \<open>A change stream that reports \<open>X\<close> as modified on page 1 and as added on page 2.\<close>

definition crossing_client :: plaid_client where
  "crossing_client = \<lparr>
     item_get = (\<lambda>tok. Inr example_info),
     accounts_balance_get = (\<lambda>tok. Inr []),
     transactions_get = (\<lambda>req. Inl example_api_exception),
     transactions_sync = (\<lambda>tok c.
        if c = Some ''c0'' then
          Inr \<lparr> response_added = [],
                response_modified = [example_transaction ''X'' ''acct'' False 1],
                response_removed = [],
                next_cursor = ''c1'', has_more = True \<rparr>
        else if c = Some ''c1'' then
          Inr \<lparr> response_added = [example_transaction ''X'' ''acct'' False 2],
                response_modified = [], response_removed = [],
                next_cursor = ''c2'', has_more = False \<rparr>
        else Inl example_api_exception) \<rparr>"

text \<open>
  A provider that serves correct pages of a fixed listing: the requested slice, and the
  length of the listing as the total.
\<close>

definition paging_client :: "transaction list \<Rightarrow> plaid_client" where
  "paging_client txs = \<lparr>
     item_get = (\<lambda>tok. Inr example_info),
     accounts_balance_get = (\<lambda>tok. Inr []),
     transactions_get = (\<lambda>req.
        Inr \<lparr> response_transactions = take (req_count req) (drop (req_offset req) txs),
              total_transactions = int (length txs) \<rparr>),
     transactions_sync = (\<lambda>tok c. Inl example_api_exception) \<rparr>"

definition five_transactions :: "transaction list" where
  "five_transactions =
     [example_transaction ''T1'' ''acct'' False 1,
      example_transaction ''T2'' ''acct'' False 2,
      example_transaction ''T3'' ''acct'' True 3,
      example_transaction ''T4'' ''acct'' False 4,
      example_transaction ''T5'' ''acct'' True 5]"

section \<open>Auxiliary lemmas\<close>

lemma wrap_plaid_error_ApiException:
  "wrap_plaid_error (map_sum ApiException f r) = Inl ex \<Longrightarrow> \<exists>e. ex = PlaidError e"
  by (cases r) (auto simp: wrap_plaid_error_def raise_plaid_def split: if_splits)

lemma get_item_info_Inl: "get_item_info client tok = Inl ex \<Longrightarrow> \<exists>e. ex = PlaidError e"
  unfolding get_item_info_def by (rule wrap_plaid_error_ApiException)

lemma fetch_balances_opt_Inl:
  "fetch_balances_opt client tok fb = Inl ex \<Longrightarrow> \<exists>e. ex = PlaidError e"
proof -
  assume a: "fetch_balances_opt client tok fb = Inl ex"
  then have "get_account_balance client tok = Inl ex"
    by (cases "get_account_balance client tok")
      (auto simp: fetch_balances_opt_def split: if_splits)
  then show ?thesis
    unfolding get_account_balance_def by (rule wrap_plaid_error_ApiException)
qed

lemma sync_transactions_loop_Inl:
  "sync_transactions_loop fuel client tok cb a m r c received = Some (Inl ex) \<Longrightarrow>
   (\<exists>x. ex = ApiException x) \<or>
   (\<exists>callback na nm nr h. cb = Some callback \<and> callback na nm nr h = Some ex)"
proof (induction fuel arbitrary: a m r c received)
  case 0
  then show ?case by simp
next
  case (Suc fuel)
  show ?case
  proof (cases "transactions_sync client tok c")
    case (Inl x)
    with Suc.prems show ?thesis by auto
  next
    case (Inr p)
    with Suc.prems Suc.IH show ?thesis
      by (auto simp: Let_def split: option.splits if_splits)
  qed
qed

lemma sync_transactions_Inl:
  assumes "sync_transactions fuel client tok c
             (if v then Some verbose_status_callback else None) = Some (Inl ex)"
  shows "(\<exists>e. ex = PlaidError e) \<or> (v \<and> ex = TypeError)"
proof -
  let ?cb = "if v then Some verbose_status_callback else None"
  from assms obtain r where
    loop: "sync_transactions_loop fuel client tok ?cb [] [] [] c [] = Some r"
    and wrapped: "wrap_plaid_error (map_sum id fst r) = Inl ex"
    by (auto simp: sync_transactions_def sync_transactions_pages_def)
  from wrapped obtain ex' where r: "r = Inl ex'"
    by (cases r) (auto simp: wrap_plaid_error_def)
  from sync_transactions_loop_Inl [OF loop [unfolded r]]
  consider x where "ex' = ApiException x" | "v" "ex' = TypeError"
    by (auto simp: verbose_status_callback_def split: if_splits)
  then show ?thesis
  proof cases
    case 1
    with wrapped r show ?thesis
      by (auto simp: wrap_plaid_error_def raise_plaid_def split: if_splits)
  next
    case 2
    with wrapped r show ?thesis
      by (simp add: wrap_plaid_error_def)
  qed
qed

lemma sync_transactions_Inr:
  "sync_transactions fuel client tok c cb = Some (Inr res) \<longleftrightarrow>
   (\<exists>pages. sync_transactions_pages fuel client tok c cb = Some (Inr (res, pages)))"
proof (cases "sync_transactions_pages fuel client tok c cb")
  case None
  then show ?thesis by (simp add: sync_transactions_def)
next
  case (Some r)
  then show ?thesis
    by (cases r) (auto simp: sync_transactions_def wrap_plaid_error_def split: exn.splits)
qed

lemma sync_transactions_verbose_raises:
  "sync_transactions fuel client tok c (Some verbose_status_callback) \<noteq> Some (Inr res)"
proof (cases fuel)
  case 0
  then show ?thesis
    by (simp add: sync_transactions_def sync_transactions_pages_def)
next
  case (Suc n)
  then show ?thesis
    by (cases "transactions_sync client tok c")
      (simp_all add: sync_transactions_def sync_transactions_pages_def wrap_plaid_error_def
         raise_plaid_def verbose_status_callback_def Let_def)
qed

lemma get_transactions_Inl:
  "get_transactions fuel client tok sd ed aids = Some (Inl ex) \<Longrightarrow> \<exists>e. ex = PlaidError e"
  by (auto simp: get_transactions_def dest: wrap_plaid_error_ApiException)

lemma except_PlaidError_PlaidError [simp]:
  "except_PlaidError self calls (PlaidError e) = Returned (self\<lparr>plaid_error := Some e\<rparr>) calls"
  by (simp add: except_PlaidError_def)

lemma except_PlaidError_TypeError [simp]:
  "except_PlaidError self calls TypeError = Raised TypeError calls"
  by (simp add: except_PlaidError_def)

lemma sync_with_cursor_cases:
  assumes "sync_with_cursor fuel self client db fb v = Some out"
  obtains (failed) e self1 where
      "out = Returned (self1\<lparr>plaid_error := Some e\<rparr>) []"
      "counts self1 = counts self" "transactions self1 = transactions self"
  | (type_error) "v" "out = Raised TypeError []"
  | (completed) info balances res self2 where
      "get_item_info client (access_token self) = Inr info"
      "fetch_balances_opt client (access_token self) fb = Inr balances"
      "sync_transactions fuel client (access_token self)
         (get_last_sync_cursor db (item_id info))
         (if v then Some verbose_status_callback else None) = Some (Inr res)"
      "self2 = add_transactions (add_transactions (self\<lparr>item_info := Some info\<rparr>) (added res))
                 (modified res)"
      "out = Returned
         (self2\<lparr>counts :=
            \<lparr> new = length (added res),
              new_pending = count_pending self2 (map transaction_id (added res)),
              archived = length (removed res),
              archived_pending = 0,
              total_fetched = length (added res) + length (modified res),
              accounts = length (remdups (map account_id (added res @ modified res))) \<rparr>\<rparr>)
         (SaveItemInfo info # save_balances (item_id info) balances
          @ map SaveTransaction (added res) @ map SaveTransaction (modified res)
          @ (if has_save_sync_cursor db then [SaveSyncCursor (item_id info) (cursor res)] else []))"
      "\<not> v"
proof (cases "get_item_info client (access_token self)")
  case (Inl ex)
  then obtain e where "ex = PlaidError e" by (auto dest: get_item_info_Inl)
  with Inl assms have "out = Returned (self\<lparr>plaid_error := Some e\<rparr>) []"
    by (simp add: sync_with_cursor_def)
  then show thesis by (rule failed) simp_all
next
  case info: (Inr info)
  let ?self1 = "self\<lparr>item_info := Some info\<rparr>"
  show thesis
  proof (cases "fetch_balances_opt client (access_token self) fb")
    case (Inl ex)
    then obtain e where "ex = PlaidError e" by (auto dest: fetch_balances_opt_Inl)
    with Inl info assms have "out = Returned (?self1\<lparr>plaid_error := Some e\<rparr>) []"
      by (simp add: sync_with_cursor_def)
    then show thesis by (rule failed) simp_all
  next
    case bal: (Inr balances)
    show thesis
    proof (cases "sync_transactions fuel client (access_token self)
                    (get_last_sync_cursor db (item_id info))
                    (if v then Some verbose_status_callback else None)")
      case None
      with info bal assms show thesis by (simp add: sync_with_cursor_def)
    next
      case (Some r)
      show thesis
      proof (cases r)
        case (Inl ex)
        from sync_transactions_Inl [OF Some [unfolded Inl]]
        consider e where "ex = PlaidError e" | "v" "ex = TypeError"
          by blast
        then show thesis
        proof cases
          case 1
          with Inl Some info bal assms
          have "out = Returned (?self1\<lparr>plaid_error := Some e\<rparr>) []"
            by (simp add: sync_with_cursor_def)
          then show thesis by (rule failed) simp_all
        next
          case 2
          with Inl Some info bal assms have "out = Raised TypeError []"
            by (simp add: sync_with_cursor_def)
          with 2(1) show thesis by (rule type_error)
        qed
      next
        case (Inr res)
        have quiet: "\<not> v"
          using Some Inr sync_transactions_verbose_raises by (cases v) auto
        show thesis
          by (rule completed [OF info bal Some [unfolded Inr] refl _ quiet])
            (use assms info bal Some Inr in \<open>simp add: sync_with_cursor_def Let_def\<close>)
      qed
    qed
  qed
qed

text \<open>
  The verbose cursor-mode run on the two-page example: the status callback raises after
  the first page, nothing is written, no error is recorded.
\<close>

lemma verbose_cursor_run_raises:
  "sync_with_cursor 5 (PlaidSynchronizer_init ''acct'' ''tok'') cursor_client example_db
     False True = Some (Raised TypeError [])"
  by code_simp

lemma dict_update_keys: "fst ` set (dict_update d ps) = fst ` set d \<union> fst ` set ps"
  unfolding dict_update_def
proof (induction ps arbitrary: d)
  case Nil
  show ?case by simp
next
  case (Cons p ps)
  show ?case by (cases p) (simp add: Cons.IH AList.dom_update Un_assoc)
qed

lemma dict_update_distinct:
  "distinct (map fst d) \<Longrightarrow> distinct (map fst (dict_update d ps))"
  unfolding dict_update_def
  by (induction ps arbitrary: d) (auto simp: AList.distinct_update)

lemma map_of_dict_update: "map_of (dict_update d ps) = map_of d ++ map_of (rev ps)"
  unfolding dict_update_def
  by (induction ps arbitrary: d) (auto simp: AList.update_conv' map_add_upd_left)

lemma map_of_rev_distinct: "distinct (map fst xs) \<Longrightarrow> map_of (rev xs) = map_of xs"
proof (induction xs)
  case Nil
  show ?case by simp
next
  case (Cons p xs)
  obtain k v where p: "p = (k, v)" by (cases p)
  from Cons.prems p have "map_of xs k = None"
    by (simp add: map_of_eq_None_iff)
  with Cons p show ?case
    by (auto simp: fun_eq_iff map_add_def split: option.splits)
qed

lemma map_of_dict_of: "map_of (dict_of ps) = map_of (rev ps)"
  by (simp add: dict_of_def map_of_dict_update)

lemma map_of_add_transactions:
  "map_of (transactions (add_transactions self ts)) =
   map_of (transactions self) ++ map_of (rev (map (\<lambda>t. (transaction_id t, t)) ts))"
proof -
  have "distinct (map fst (dict_of (map (\<lambda>t. (transaction_id t, t)) ts)))"
    unfolding dict_of_def by (rule dict_update_distinct) simp
  then show ?thesis
    by (simp add: add_transactions_def map_of_dict_update map_of_rev_distinct map_of_dict_of)
qed

lemma keys_add_transactions:
  "fst ` set (transactions (add_transactions self ts)) =
   fst ` set (transactions self) \<union> transaction_id ` set ts"
  by (simp add: add_transactions_def dict_update_keys dict_of_def image_image)

lemma add_transactions_fields [simp]:
  "counts (add_transactions self ts) = counts self"
  "plaid_error (add_transactions self ts) = plaid_error self"
  "item_info (add_transactions self ts) = item_info self"
  "access_token (add_transactions self ts) = access_token self"
  by (simp_all add: add_transactions_def)

lemma save_transactions_by_id_Inr:
  "set tids \<subseteq> fst ` set d \<Longrightarrow>
   save_transactions_by_id d tids calls =
     Inr (calls @ map (\<lambda>tid. SaveTransaction (the (map_of d tid))) tids)"
proof (induction tids arbitrary: calls)
  case Nil
  show ?case by simp
next
  case (Cons tid tids)
  from Cons.prems have "map_of d tid \<noteq> None"
    by (simp add: map_of_eq_None_iff)
  then obtain t where "map_of d tid = Some t" by blast
  with Cons show ?case by simp
qed

lemma reconcile_window_sets:
  "set (tids_new (reconcile_window self db sd ed)) \<subseteq> fst ` set (transactions self)"
  by (auto simp: reconcile_window_def Let_def set_difference_def)

lemma sync_cursor_mode [simp]:
  "sync fuel self client db sd ed fb v True = sync_with_cursor fuel self client db fb v"
  by (simp add: sync_def)

lemma sync_window_cases:
  assumes "sync fuel self client db sd ed fb v False = Some out"
  obtains (failed) e self1 where
      "out = Returned (self1\<lparr>plaid_error := Some e\<rparr>) []"
      "counts self1 = counts self" "transactions self1 = transactions self"
  | (type_error) "v" "fetch_balances_opt client (access_token self) fb = Inr None"
      "out = Raised TypeError []"
  | (completed) info balances fetched self2 w self3 where
      "get_item_info client (access_token self) = Inr info"
      "fetch_balances_opt client (access_token self) fb = Inr balances"
      "get_transactions fuel client (access_token self) sd ed None = Some (Inr fetched)"
      "self2 = add_transactions (self\<lparr>item_info := Some info\<rparr>) fetched"
      "w = reconcile_window self2 db sd ed"
      "self3 = add_transactions self2 (fetch_transactions_by_id db (tids_to_archive w))"
      "out = Returned
         (self3\<lparr>counts :=
            \<lparr> new = length (tids_new w),
              new_pending = count_pending self3 (tids_new w),
              archived = length (tids_to_archive w),
              archived_pending = count_pending self3 (tids_to_archive w),
              total_fetched = length (tids_fetched w),
              accounts = length (account_ids w) \<rparr>\<rparr>)
         (SaveItemInfo info # save_balances (item_id info) balances
          @ map (\<lambda>tid. SaveTransaction (the (map_of (transactions self3) tid))) (tids_new w))"
proof (cases "get_item_info client (access_token self)")
  case (Inl ex)
  then obtain e where "ex = PlaidError e" by (auto dest: get_item_info_Inl)
  with Inl assms have "out = Returned (self\<lparr>plaid_error := Some e\<rparr>) []"
    by (simp add: sync_def)
  then show thesis by (rule failed) simp_all
next
  case info: (Inr info)
  let ?self1 = "self\<lparr>item_info := Some info\<rparr>"
  show thesis
  proof (cases "fetch_balances_opt client (access_token self) fb")
    case (Inl ex)
    then obtain e where "ex = PlaidError e" by (auto dest: fetch_balances_opt_Inl)
    with Inl info assms have "out = Returned (?self1\<lparr>plaid_error := Some e\<rparr>) []"
      by (simp add: sync_def)
    then show thesis by (rule failed) simp_all
  next
    case bal: (Inr balances)
    show thesis
    proof (cases "get_transactions fuel client (access_token self) sd ed None")
      case None
      with info bal assms show thesis by (simp add: sync_def)
    next
      case (Some r)
      show thesis
      proof (cases r)
        case (Inl ex)
        with Some obtain e where "ex = PlaidError e" by (auto dest: get_transactions_Inl)
        with Inl Some info bal assms
        have "out = Returned (?self1\<lparr>plaid_error := Some e\<rparr>) []"
          by (simp add: sync_def)
        then show thesis by (rule failed) simp_all
      next
        case (Inr fetched)
        define self2 where "self2 = add_transactions ?self1 fetched"
        define w where "w = reconcile_window self2 db sd ed"
        define self3 where
          "self3 = add_transactions self2 (fetch_transactions_by_id db (tids_to_archive w))"
        have "set (tids_new w) \<subseteq> fst ` set (transactions self3)"
          using reconcile_window_sets [of self2 db sd ed]
          by (auto simp: w_def self3_def keys_add_transactions)
        then have saved: "save_transactions_by_id (transactions self3) (tids_new w) calls =
            Inr (calls @ map (\<lambda>tid. SaveTransaction (the (map_of (transactions self3) tid)))
                   (tids_new w))" for calls
          by (rule save_transactions_by_id_Inr)
        show thesis
        proof (cases "v \<and> balances = None")
          case True
          with assms info bal Some Inr have "out = Raised TypeError []"
            by (simp add: sync_def Let_def except_PlaidError_def)
          with True bal show thesis by (auto intro: type_error)
        next
          case False
          show thesis
            by (rule completed [OF info bal Some [unfolded Inr] self2_def w_def self3_def])
              (use assms info bal Some Inr False saved in
                \<open>simp add: sync_def Let_def self2_def [symmetric] w_def [symmetric]
                   self3_def [symmetric]\<close>)
        qed
      qed
    qed
  qed
qed

lemma db_run_Nil [simp]: "db_run [] db = db"
  by (simp add: db_run_def)

lemma save_balances_calls:
  "c \<in> set (save_balances item balances) \<Longrightarrow> \<exists>b. c = SaveBalance item b"
  by (auto simp: save_balances_def split: option.splits)

lemma count_pending_le: "count_pending self tids \<le> length tids"
  by (simp add: count_pending_def)

lemma init_fields [simp]:
  "counts (PlaidSynchronizer_init name token) =
     \<lparr> new = 0, new_pending = 0, archived = 0, archived_pending = 0,
       total_fetched = 0, accounts = 0 \<rparr>"
  "plaid_error (PlaidSynchronizer_init name token) = None"
  "transactions (PlaidSynchronizer_init name token) = []"
  "access_token (PlaidSynchronizer_init name token) = token"
  by (simp_all add: PlaidSynchronizer_init_def)

lemma sync_cases:
  assumes "sync fuel self client db sd ed fb v use_cursor = Some out"
  obtains (failed) e self1 where
      "out = Returned (self1\<lparr>plaid_error := Some e\<rparr>) []"
      "counts self1 = counts self"
  | (type_error) "out = Raised TypeError []"
  | (completed) self3 c calls where
      "out = Returned (self3\<lparr>counts := c\<rparr>) calls"
      "plaid_error self3 = plaid_error self"
      "new_pending c \<le> new c" "archived_pending c \<le> archived c"
proof (cases use_cursor)
  case True
  with assms have "sync_with_cursor fuel self client db fb v = Some out" by simp
  then show thesis
  proof (cases rule: sync_with_cursor_cases)
    case (failed e self1)
    then show thesis by (auto intro: that(1))
  next
    case type_error
    then show thesis by (auto intro: that(2))
  next
    case (completed info balances res self2)
    show thesis
      by (rule that(3) [OF completed(5)]) (simp_all add: completed(4) count_pending_le [THEN order_trans])
  qed
next
  case False
  with assms have "sync fuel self client db sd ed fb v False = Some out" by simp
  then show thesis
  proof (cases rule: sync_window_cases)
    case (failed e self1)
    then show thesis by (auto intro: that(1))
  next
    case type_error
    then show thesis by (auto intro: that(2))
  next
    case (completed info balances fetched self2 w self3)
    show thesis
      by (rule that(3) [OF completed(7)]) (simp_all add: completed(4,6) count_pending_le)
  qed
qed

lemma sync_transactions_loop_pages:
  "sync_transactions_loop fuel client tok cb a m r c received = Some (Inr (res, pages)) \<Longrightarrow>
   \<exists>ps. ps \<noteq> [] \<and> pages = received @ ps \<and>
     added res = a @ concat (map response_added ps) \<and>
     modified res = m @ concat (map response_modified ps) \<and>
     removed res = r @ concat (map response_removed ps) \<and>
     cursor res = next_cursor (last ps) \<and>
     \<not> has_more (last ps) \<and> (\<forall>p \<in> set (butlast ps). has_more p)"
proof (induction fuel arbitrary: a m r c received)
  case 0
  then show ?case by simp
next
  case (Suc fuel)
  show ?case
  proof (cases "transactions_sync client tok c")
    case (Inl ex)
    with Suc.prems show ?thesis by simp
  next
    case (Inr p)
    have quiet: "callback (length (a @ response_added p)) (length (m @ response_modified p))
            (length (r @ response_removed p)) (has_more p) = None"
      if "cb = Some callback" for callback
      using Suc.prems Inr that
      by (cases "callback (length (a @ response_added p)) (length (m @ response_modified p))
            (length (r @ response_removed p)) (has_more p)") (simp_all add: Let_def)
    show ?thesis
    proof (cases "has_more p")
      case True
      with Suc.prems Inr quiet
      have "sync_transactions_loop fuel client tok cb (a @ response_added p)
              (m @ response_modified p) (r @ response_removed p) (Some (next_cursor p))
              (received @ [p]) = Some (Inr (res, pages))"
        by (cases cb) (auto simp: Let_def)
      from Suc.IH [OF this] obtain ps where ps: "ps \<noteq> []" "pages = (received @ [p]) @ ps"
        "added res = (a @ response_added p) @ concat (map response_added ps)"
        "modified res = (m @ response_modified p) @ concat (map response_modified ps)"
        "removed res = (r @ response_removed p) @ concat (map response_removed ps)"
        "cursor res = next_cursor (last ps)"
        "\<not> has_more (last ps)" "\<forall>q \<in> set (butlast ps). has_more q"
        by blast
      with True show ?thesis
        by (intro exI [of _ "p # ps"]) auto
    next
      case False
      with Suc.prems Inr quiet show ?thesis
        by (intro exI [of _ "[p]"]) (cases cb; auto simp: Let_def)
    qed
  qed
qed

lemma map_of_rev_last:
  "map_of (rev (map (\<lambda>t. (f t, t)) ts)) k =
     (if filter (\<lambda>t. f t = k) ts = [] then None else Some (last (filter (\<lambda>t. f t = k) ts)))"
  by (induction ts rule: rev_induct) auto

lemma pages_step:
  fixes P R :: nat
  assumes "0 < P" "P < R"
  shows "(R + P - 1) div P = Suc ((R - P + P - 1) div P)"
proof -
  from assms have e1: "R + P - 1 = (R - 1) + P" and e2: "R - P + P - 1 = R - 1"
    by simp_all
  have "(m + P) div P = Suc (m div P)" for m
    using assms(1) by (simp add: div_add_self2)
  then show ?thesis unfolding e1 e2 .
qed

lemma pages_last:
  fixes P R :: nat
  assumes "0 < P" "R \<le> P"
  shows "max 1 ((R + P - 1) div P) = 1"
proof -
  from assms have "R + P - 1 < 2 * P" by simp
  then have "(R + P - 1) div P < 2"
    using assms(1) by (simp add: less_mult_imp_div_less)
  then show ?thesis by simp
qed

lemma get_transactions_loop_serving:
  assumes P: "0 < P"
    and serves: "\<forall>req. transactions_get client req =
      Inr \<lparr> response_transactions = take (req_count req) (drop (req_offset req) txs),
            total_transactions = int (length txs) \<rparr>"
  shows "offset \<le> length txs \<Longrightarrow> ret = take offset txs \<Longrightarrow>
         max 1 ((length txs - offset + P - 1) div P) \<le> fuel \<Longrightarrow>
         \<exists>new. get_transactions_loop fuel client tok sd ed aids P ret offset sent =
                  Some (Inr (txs, sent @ new)) \<and>
               length new = max 1 ((length txs - offset + P - 1) div P) \<and>
               map req_offset new = map (\<lambda>i. offset + i * P) [0..<length new]"
proof (induction fuel arbitrary: ret offset sent)
  case 0
  then show ?case by simp
next
  case (Suc fuel)
  let ?R = "length txs - offset"
  let ?req = "\<lparr> req_access_token = tok, req_start_date = sd, req_end_date = ed,
                 req_count = P, req_offset = offset,
                 req_account_ids = (case aids of None \<Rightarrow> None | Some [] \<Rightarrow> None
                                    | Some (a # as) \<Rightarrow> Some (a # as)) \<rparr>"
  have resp: "transactions_get client ?req =
      Inr \<lparr> response_transactions = take P (drop offset txs),
            total_transactions = int (length txs) \<rparr>"
    using serves by simp
  have ret': "ret @ take P (drop offset txs) = take (offset + P) txs"
    using Suc.prems(2) by (simp add: take_add)
  show ?case
  proof (cases "?R \<le> P")
    case True
    then have stop: "length (take P (drop offset txs)) < P
        \<or> int (length txs) \<le> int (length (ret @ take P (drop offset txs)))"
      unfolding ret' using Suc.prems(1) by auto
    from True have all: "take (offset + P) txs = txs" by simp
    have "get_transactions_loop (Suc fuel) client tok sd ed aids P ret offset sent =
            Some (Inr (txs, sent @ [?req]))"
      using resp stop by (simp add: Let_def ret' all del: length_append length_take)
    moreover have "max 1 ((?R + P - 1) div P) = 1"
      using P True by (rule pages_last)
    ultimately show ?thesis
      by (intro exI [of _ "[?req]"]) simp
  next
    case False
    then have more: "P < ?R" by simp
    then have cont: "\<not> (length (take P (drop offset txs)) < P
        \<or> int (length txs) \<le> int (length (ret @ take P (drop offset txs))))"
      unfolding ret' by auto
    have step: "get_transactions_loop (Suc fuel) client tok sd ed aids P ret offset sent =
        get_transactions_loop fuel client tok sd ed aids P (take (offset + P) txs)
          (offset + P) (sent @ [?req])"
      using resp cont by (simp add: Let_def ret' del: length_append length_take)
    have n: "(?R + P - 1) div P = Suc ((?R - P + P - 1) div P)"
      using P more by (rule pages_step)
    have R': "length txs - (offset + P) = ?R - P" by simp
    from more have "1 \<le> (?R - P + P - 1) div P"
      using P by (simp add: Suc_le_eq div_greater_zero_iff)
    then have m: "max 1 ((?R - P + P - 1) div P) = (?R - P + P - 1) div P"
      by simp
    from Suc.prems(3) n m have fuel: "max 1 ((length txs - (offset + P) + P - 1) div P) \<le> fuel"
      unfolding R' by simp
    from more have le: "offset + P \<le> length txs" by simp
    from Suc.IH [OF le refl fuel, of "sent @ [?req]"]
    obtain new where new:
      "get_transactions_loop fuel client tok sd ed aids P (take (offset + P) txs)
         (offset + P) (sent @ [?req]) = Some (Inr (txs, (sent @ [?req]) @ new))"
      "length new = max 1 ((length txs - (offset + P) + P - 1) div P)"
      "map req_offset new = map (\<lambda>i. offset + P + i * P) [0..<length new]"
      by blast
    have len: "length (?req # new) = max 1 ((?R + P - 1) div P)"
      using new(2) n m unfolding R' by simp
    have "map (\<lambda>i. offset + i * P) [0..<Suc (length new)] =
          offset # map (\<lambda>i. offset + P + i * P) [0..<length new]"
      by (simp add: upt_conv_Cons map_Suc_upt [symmetric] del: upt_Suc)
    then have offs: "map req_offset (?req # new) =
        map (\<lambda>i. offset + i * P) [0..<length (?req # new)]"
      using new(3) by simp
    from step new(1) len offs show ?thesis
      by (intro exI [of _ "?req # new"]) simp
  qed
qed

lemma db_run_stored_transactions:
  "(\<And>t. SaveTransaction t \<in> set calls \<Longrightarrow> transaction_id t \<noteq> tid) \<Longrightarrow>
   map_of (stored_transactions (db_run calls db)) tid = map_of (stored_transactions db) tid"
  unfolding db_run_def
proof (induction calls arbitrary: db)
  case Nil
  show ?case by simp
next
  case (Cons c calls)
  have "map_of (stored_transactions (db_exec c db)) tid = map_of (stored_transactions db) tid"
    using Cons.prems [of "case c of SaveTransaction t \<Rightarrow> t"]
    by (cases c) (auto simp: AList.update_conv')
  moreover have "map_of (stored_transactions (fold db_exec calls (db_exec c db))) tid =
      map_of (stored_transactions (db_exec c db)) tid"
    by (rule Cons.IH) (simp add: Cons.prems)
  ultimately show ?case by simp
qed

lemma map_of_keyed:
  "map_of (rev (map (\<lambda>t. (f t, t)) ts)) k = Some t \<Longrightarrow> f t = k"
  by (auto dest: map_of_SomeD)

lemma add_transactions_keyed:
  assumes "\<And>k t. map_of (transactions self) k = Some t \<Longrightarrow> transaction_id t = k"
    and "map_of (transactions (add_transactions self ts)) k = Some t"
  shows "transaction_id t = k"
  using assms(2) unfolding map_of_add_transactions
  by (auto simp: map_add_Some_iff dest: map_of_keyed assms(1))

section \<open>Cursor atomicity\<close>

text \<open>
  Claim C1. In cursor mode the store's \<^verbatim>\<open>save_sync_cursor\<close> is called only when
  the whole page loop of \<^verbatim>\<open>sync_transactions\<close> has returned without error, with
  the cursor the loop returned; and when the loop raises (a provider error, or the
  \<^verbatim>\<open>TypeError\<close> of the verbose status callback) the run makes no write call at
  all, so the cursor stored for every item is what it was before.
\<close>

theorem cursor_saved_only_after_full_drain:
  assumes "sync_with_cursor fuel self client db fb v = Some out"
  shows "(\<forall>item c. SaveSyncCursor item c \<in> set (calls_of out) \<longrightarrow>
            (\<exists>info res. get_item_info client (access_token self) = Inr info \<and>
               item = item_id info \<and>
               sync_transactions fuel client (access_token self)
                 (get_last_sync_cursor db item)
                 (if v then Some verbose_status_callback else None) = Some (Inr res) \<and>
               c = cursor res)) \<and>
         ((\<exists>info ex. get_item_info client (access_token self) = Inr info \<and>
             sync_transactions fuel client (access_token self)
               (get_last_sync_cursor db (item_id info))
               (if v then Some verbose_status_callback else None) = Some (Inl ex)) \<longrightarrow>
            calls_of out = [] \<and>
            (\<forall>item. get_last_sync_cursor (db_run (calls_of out) db) item =
               get_last_sync_cursor db item))"
  using assms
proof (cases rule: sync_with_cursor_cases)
  case (failed e self1)
  then show ?thesis by simp
next
  case type_error
  then show ?thesis by simp
next
  case (completed info balances res self2)
  have "SaveSyncCursor item c \<notin> set (save_balances (item_id info) balances)" for item c
    by (auto simp: save_balances_def split: option.splits)
  with completed show ?thesis by auto
qed

theorem cursor_saved_only_after_full_drain_witness:
  "sync_with_cursor 5 (PlaidSynchronizer_init ''acct'' ''tok'') failing_client example_db
     False False =
     Some (Returned ((PlaidSynchronizer_init ''acct'' ''tok'')
        \<lparr>item_info := Some example_info,
          plaid_error := Some (PlaidUnknownError example_api_exception)\<rparr>) []) \<and>
   sync_transactions 5 failing_client ''tok'' (get_last_sync_cursor example_db ''item'') None =
     Some (Inl (PlaidError (PlaidUnknownError example_api_exception))) \<and>
   get_last_sync_cursor example_db ''item'' = Some ''c0'' \<and>
   get_last_sync_cursor (db_run [] example_db) ''item'' = Some ''c0'' \<and>
   SaveSyncCursor ''item'' ''c2'' \<in> set (calls_of (the
     (sync_with_cursor 5 (PlaidSynchronizer_init ''acct'' ''tok'') cursor_client example_db
        False False))) \<and>
   (\<exists>res. sync_transactions 5 cursor_client ''tok'' (get_last_sync_cursor example_db ''item'')
           None = Some (Inr res) \<and> cursor res = ''c2'')"
proof -
  let ?s0 = "PlaidSynchronizer_init ''acct'' ''tok''"
  let ?out = "Returned (?s0\<lparr>item_info := Some example_info,
                plaid_error := Some (PlaidUnknownError example_api_exception)\<rparr>) []"
  have run: "sync_with_cursor 5 ?s0 failing_client example_db False False = Some ?out"
    by code_simp
  have info: "get_item_info failing_client (access_token ?s0) = Inr example_info"
    by code_simp
  have item: "item_id example_info = ''item''"
    by code_simp
  have tok: "access_token ?s0 = ''tok''"
    by code_simp
  have loop: "sync_transactions 5 failing_client ''tok'' (get_last_sync_cursor example_db ''item'')
      None = Some (Inl (PlaidError (PlaidUnknownError example_api_exception)))"
    by code_simp
  have before: "get_last_sync_cursor example_db ''item'' = Some ''c0''"
    by code_simp
  from cursor_saved_only_after_full_drain [OF run] info item tok loop
  have "calls_of ?out = [] \<and>
        (\<forall>i. get_last_sync_cursor (db_run (calls_of ?out) example_db) i =
              get_last_sync_cursor example_db i)"
    by auto
  then have unchanged: "get_last_sync_cursor (db_run [] example_db) ''item'' = Some ''c0''"
    using before by simp
  obtain out2 where run2: "sync_with_cursor 5 ?s0 cursor_client example_db False False = Some out2"
    and saved: "SaveSyncCursor ''item'' ''c2'' \<in> set (calls_of out2)"
    by (rule that [of "the (sync_with_cursor 5 ?s0 cursor_client example_db False False)"])
      code_simp+
  from cursor_saved_only_after_full_drain [OF run2] saved info
  have "\<exists>res. sync_transactions 5 cursor_client ''tok'' (get_last_sync_cursor example_db ''item'')
      None = Some (Inr res) \<and> cursor res = ''c2''"
    using tok by force
  with run loop before unchanged run2 saved show ?thesis by simp
qed

section \<open>Provider errors at the boundary\<close>

text \<open>
  Claim C3. In either mode a provider error never leaves \<^verbatim>\<open>sync\<close> as an exception:
  whichever provider call raises it (item info, balances, or a page request of the
  transaction loop as \<^verbatim>\<open>sync\<close> runs it, with the verbose status callback when
  verbose), the run returns with that error in \<^verbatim>\<open>plaid_error\<close>; and a run that
  returns with a recorded error has made no store write call.
\<close>

theorem provider_error_caught_before_any_write:
  assumes "sync fuel self client db sd ed fb v use_cursor = Some out"
    and "plaid_error self = None"
  shows "(\<forall>e calls. out \<noteq> Raised (PlaidError e) calls) \<and>
         (\<forall>self' calls e. out = Returned self' calls \<and> plaid_error self' = Some e \<longrightarrow>
            calls = []) \<and>
         (\<forall>e. (get_item_info client (access_token self) = Inl (PlaidError e) \<or>
               (\<exists>info. get_item_info client (access_token self) = Inr info \<and>
                  (fetch_balances_opt client (access_token self) fb = Inl (PlaidError e) \<or>
                   (\<exists>balances.
                      fetch_balances_opt client (access_token self) fb = Inr balances \<and>
                      (if use_cursor
                       then sync_transactions fuel client (access_token self)
                              (get_last_sync_cursor db (item_id info))
                              (if v then Some verbose_status_callback else None) =
                            Some (Inl (PlaidError e))
                       else get_transactions fuel client (access_token self) sd ed None =
                            Some (Inl (PlaidError e))))))) \<longrightarrow>
            (\<exists>self'. out = Returned self' [] \<and> plaid_error self' = Some e))"
proof (intro conjI allI impI)
  fix e calls
  from assms(1) show "out \<noteq> Raised (PlaidError e) calls"
    by (cases rule: sync_cases) simp_all
next
  fix self' calls e
  assume "out = Returned self' calls \<and> plaid_error self' = Some e"
  with assms show "calls = []"
    by (cases rule: sync_cases) auto
next
  fix e
  assume fails: "get_item_info client (access_token self) = Inl (PlaidError e) \<or>
               (\<exists>info. get_item_info client (access_token self) = Inr info \<and>
                  (fetch_balances_opt client (access_token self) fb = Inl (PlaidError e) \<or>
                   (\<exists>balances.
                      fetch_balances_opt client (access_token self) fb = Inr balances \<and>
                      (if use_cursor
                       then sync_transactions fuel client (access_token self)
                              (get_last_sync_cursor db (item_id info))
                              (if v then Some verbose_status_callback else None) =
                            Some (Inl (PlaidError e))
                       else get_transactions fuel client (access_token self) sd ed None =
                            Some (Inl (PlaidError e))))))"
  with assms(1) show "\<exists>self'. out = Returned self' [] \<and> plaid_error self' = Some e"
    by (auto simp: sync_def sync_with_cursor_def split: if_splits)
qed

theorem provider_error_caught_before_any_write_witness:
  "plaid_error (PlaidSynchronizer_init ''acct'' ''tok'') = None \<and>
   get_transactions 5 error_client ''tok'' 0 10 None =
     Some (Inl (PlaidError (PlaidUnknownError example_api_exception))) \<and>
   sync 5 (PlaidSynchronizer_init ''acct'' ''tok'') error_client example_db 0 10
     False False False =
     Some (Returned ((PlaidSynchronizer_init ''acct'' ''tok'')
        \<lparr>item_info := Some example_info,
          plaid_error := Some (PlaidUnknownError example_api_exception)\<rparr>) []) \<and>
   sync_transactions 5 failing_client ''tok'' (get_last_sync_cursor example_db ''item'') None =
     Some (Inl (PlaidError (PlaidUnknownError example_api_exception))) \<and>
   sync 5 (PlaidSynchronizer_init ''acct'' ''tok'') failing_client example_db 0 10
     False False True =
     Some (Returned ((PlaidSynchronizer_init ''acct'' ''tok'')
        \<lparr>item_info := Some example_info,
          plaid_error := Some (PlaidUnknownError example_api_exception)\<rparr>) []) \<and>
   sync_transactions 5 error_client ''tok'' (get_last_sync_cursor example_db ''item'')
     (Some verbose_status_callback) =
     Some (Inl (PlaidError (PlaidUnknownError example_api_exception))) \<and>
   sync 5 (PlaidSynchronizer_init ''acct'' ''tok'') error_client example_db 0 10
     False True True =
     Some (Returned ((PlaidSynchronizer_init ''acct'' ''tok'')
        \<lparr>item_info := Some example_info,
          plaid_error := Some (PlaidUnknownError example_api_exception)\<rparr>) []) \<and>
   plaid_error ((PlaidSynchronizer_init ''acct'' ''tok'')
        \<lparr>item_info := Some example_info,
          plaid_error := Some (PlaidUnknownError example_api_exception)\<rparr>) =
     Some (PlaidUnknownError example_api_exception)"
proof -
  let ?s0 = "PlaidSynchronizer_init ''acct'' ''tok''"
  let ?e = "PlaidUnknownError example_api_exception"
  let ?s1 = "?s0\<lparr>item_info := Some example_info, plaid_error := Some ?e\<rparr>"
  have init: "plaid_error ?s0 = None" by simp
  have run1: "sync 5 ?s0 error_client example_db 0 10 False False False = Some (Returned ?s1 [])"
    by code_simp
  have run2: "sync 5 ?s0 failing_client example_db 0 10 False False True = Some (Returned ?s1 [])"
    by code_simp
  have info1: "get_item_info error_client (access_token ?s0) = Inr example_info"
    and bal1: "fetch_balances_opt error_client (access_token ?s0) False = Inr None"
    and page1: "get_transactions 5 error_client (access_token ?s0) 0 10 None =
                  Some (Inl (PlaidError ?e))"
    by code_simp+
  have info2: "get_item_info failing_client (access_token ?s0) = Inr example_info"
    and bal2: "fetch_balances_opt failing_client (access_token ?s0) False = Inr None"
    and page2: "sync_transactions 5 failing_client (access_token ?s0)
                  (get_last_sync_cursor example_db (item_id example_info)) None =
                  Some (Inl (PlaidError ?e))"
    by code_simp+
  have run3: "sync 5 ?s0 error_client example_db 0 10 False True True = Some (Returned ?s1 [])"
    by code_simp
  have page3: "sync_transactions 5 error_client (access_token ?s0)
                  (get_last_sync_cursor example_db (item_id example_info))
                  (Some verbose_status_callback) =
                  Some (Inl (PlaidError ?e))"
    by code_simp
  have item: "item_id example_info = ''item''" by code_simp
  from provider_error_caught_before_any_write [OF run1 init] info1 bal1 page1
  have "\<exists>self'. Returned ?s1 [] = Returned self' [] \<and> plaid_error self' = Some ?e"
    by simp
  moreover
  from provider_error_caught_before_any_write [OF run2 init] info2 bal2 page2
  have "\<exists>self'. Returned ?s1 [] = Returned self' [] \<and> plaid_error self' = Some ?e"
    by simp
  moreover
  from provider_error_caught_before_any_write [OF run3 init] info1 bal1 page3
  have "\<exists>self'. Returned ?s1 [] = Returned self' [] \<and> plaid_error self' = Some ?e"
    by simp
  ultimately have "plaid_error ?s1 = Some ?e" by blast
  with init run1 run2 run3 page1 page2 page3 item show ?thesis by simp
qed

section \<open>Counts\<close>

text \<open>
  Claim C8. For a synchronizer as \<^verbatim>\<open>__init__\<close> builds it, the counts of every run
  that returns, in either mode, satisfy \<open>new_pending \<le> new\<close> and
  \<open>archived_pending \<le> archived\<close>.
\<close>

theorem pending_counts_bounded:
  assumes "sync fuel (PlaidSynchronizer_init name token) client db sd ed fb v use_cursor =
             Some (Returned self' calls)"
  shows "new_pending (counts self') \<le> new (counts self') \<and>
         archived_pending (counts self') \<le> archived (counts self')"
  using assms
proof (cases rule: sync_cases)
  case (failed e self1)
  then show ?thesis by simp
next
  case type_error
  then show ?thesis by simp
next
  case (completed self3 c calls')
  then show ?thesis by simp
qed

theorem pending_counts_bounded_witness:
  "(\<exists>self' calls.
      sync 5 (PlaidSynchronizer_init ''acct'' ''tok'') window_client example_db 0 10
        False False False = Some (Returned self' calls) \<and>
      counts self' = \<lparr> new = 1, new_pending = 1, archived = 1, archived_pending = 0,
                        total_fetched = 3, accounts = 1 \<rparr> \<and>
      new_pending (counts self') \<le> new (counts self') \<and>
      archived_pending (counts self') \<le> archived (counts self')) \<and>
   (\<exists>self' calls.
      sync 5 (PlaidSynchronizer_init ''acct'' ''tok'') cursor_client example_db 0 10
        False False True = Some (Returned self' calls) \<and>
      counts self' = \<lparr> new = 2, new_pending = 1, archived = 1, archived_pending = 0,
                        total_fetched = 3, accounts = 1 \<rparr> \<and>
      new_pending (counts self') \<le> new (counts self') \<and>
      archived_pending (counts self') \<le> archived (counts self'))"
proof -
  let ?s0 = "PlaidSynchronizer_init ''acct'' ''tok''"
  have "case sync 5 ?s0 window_client example_db 0 10 False False False of
          Some (Returned s c) \<Rightarrow>
            counts s = \<lparr> new = 1, new_pending = 1, archived = 1, archived_pending = 0,
                         total_fetched = 3, accounts = 1 \<rparr>
        | _ \<Rightarrow> False"
    by code_simp
  then obtain s1 c1 where
    run1: "sync 5 ?s0 window_client example_db 0 10 False False False = Some (Returned s1 c1)"
    and counts1: "counts s1 = \<lparr> new = 1, new_pending = 1, archived = 1, archived_pending = 0,
                                 total_fetched = 3, accounts = 1 \<rparr>"
    by (auto split: option.splits outcome.splits)
  have "case sync 5 ?s0 cursor_client example_db 0 10 False False True of
          Some (Returned s c) \<Rightarrow>
            counts s = \<lparr> new = 2, new_pending = 1, archived = 1, archived_pending = 0,
                         total_fetched = 3, accounts = 1 \<rparr>
        | _ \<Rightarrow> False"
    by code_simp
  then obtain s2 c2 where
    run2: "sync 5 ?s0 cursor_client example_db 0 10 False False True = Some (Returned s2 c2)"
    and counts2: "counts s2 = \<lparr> new = 2, new_pending = 1, archived = 1, archived_pending = 0,
                                 total_fetched = 3, accounts = 1 \<rparr>"
    by (auto split: option.splits outcome.splits)
  from pending_counts_bounded [OF run1] pending_counts_bounded [OF run2]
    run1 counts1 run2 counts2
  show ?thesis by blast
qed

text \<open>
  Claim C10. For a synchronizer as \<^verbatim>\<open>__init__\<close> builds it, a run in either mode
  that ends with \<^verbatim>\<open>plaid_error\<close> set leaves \<^verbatim>\<open>counts\<close> at
  \<^verbatim>\<open>SyncCounts(0, 0, 0, 0, 0, 0)\<close>.
\<close>

theorem failed_sync_reports_zero_counts:
  assumes "sync fuel (PlaidSynchronizer_init name token) client db sd ed fb v use_cursor =
             Some (Returned self' calls)"
    and "plaid_error self' \<noteq> None"
  shows "counts self' = \<lparr> new = 0, new_pending = 0, archived = 0, archived_pending = 0,
                          total_fetched = 0, accounts = 0 \<rparr>"
  using assms(1)
proof (cases rule: sync_cases)
  case (failed e self1)
  then show ?thesis by simp
next
  case type_error
  then show ?thesis by simp
next
  case (completed self3 c calls')
  with assms(2) show ?thesis by simp
qed

theorem failed_sync_reports_zero_counts_witness:
  "sync 5 (PlaidSynchronizer_init ''acct'' ''tok'') failing_client example_db 0 10
     False False True =
     Some (Returned ((PlaidSynchronizer_init ''acct'' ''tok'')
        \<lparr>item_info := Some example_info,
          plaid_error := Some (PlaidUnknownError example_api_exception)\<rparr>) []) \<and>
   sync 5 (PlaidSynchronizer_init ''acct'' ''tok'') error_client example_db 0 10
     False False False =
     Some (Returned ((PlaidSynchronizer_init ''acct'' ''tok'')
        \<lparr>item_info := Some example_info,
          plaid_error := Some (PlaidUnknownError example_api_exception)\<rparr>) []) \<and>
   counts ((PlaidSynchronizer_init ''acct'' ''tok'')
        \<lparr>item_info := Some example_info,
          plaid_error := Some (PlaidUnknownError example_api_exception)\<rparr>) =
     \<lparr> new = 0, new_pending = 0, archived = 0, archived_pending = 0,
       total_fetched = 0, accounts = 0 \<rparr>"
proof -
  let ?s0 = "PlaidSynchronizer_init ''acct'' ''tok''"
  let ?s1 = "?s0\<lparr>item_info := Some example_info,
                plaid_error := Some (PlaidUnknownError example_api_exception)\<rparr>"
  have run1: "sync 5 ?s0 failing_client example_db 0 10 False False True = Some (Returned ?s1 [])"
    by code_simp
  have run2: "sync 5 ?s0 error_client example_db 0 10 False False False = Some (Returned ?s1 [])"
    by code_simp
  have err: "plaid_error ?s1 \<noteq> None" by simp
  from failed_sync_reports_zero_counts [OF run1 err] failed_sync_reports_zero_counts [OF run2 err]
    run1 run2
  show ?thesis by simp
qed

section \<open>The archive capability is not used\<close>

text \<open>
  Claim C9. No run of \<^verbatim>\<open>sync\<close>, in window or in cursor mode, calls the store's
  \<^verbatim>\<open>archive_transactions\<close>: the removed or archived ids are counted only.
\<close>

theorem archive_never_called:
  assumes "sync fuel self client db sd ed fb v use_cursor = Some out"
  shows "ArchiveTransactions ids \<notin> set (calls_of out)"
proof (cases use_cursor)
  case True
  with assms have "sync_with_cursor fuel self client db fb v = Some out" by simp
  then show ?thesis
    by (cases rule: sync_with_cursor_cases) (auto dest: save_balances_calls)
next
  case False
  with assms have "sync fuel self client db sd ed fb v False = Some out" by simp
  then show ?thesis
    by (cases rule: sync_window_cases) (auto dest: save_balances_calls)
qed

theorem archive_never_called_witness:
  "map_option (map_sum id removed)
     (sync_transactions 5 cursor_client ''tok'' (Some ''c0'') None) = Some (Inr [''T3'']) \<and>
   map_option calls_of
     (sync 5 (PlaidSynchronizer_init ''acct'' ''tok'') cursor_client example_db 0 10
        False False True) =
     Some [SaveItemInfo example_info,
           SaveTransaction (example_transaction ''T1'' ''acct'' True 1),
           SaveTransaction (example_transaction ''T2'' ''acct'' False 2),
           SaveTransaction (example_transaction ''T2'' ''acct'' False 3),
           SaveSyncCursor ''item'' ''c2''] \<and>
   ArchiveTransactions [''T3''] \<notin> set (calls_of (the
     (sync 5 (PlaidSynchronizer_init ''acct'' ''tok'') cursor_client example_db 0 10
        False False True))) \<and>
   tids_to_archive (reconcile_window
      (add_transactions (PlaidSynchronizer_init ''acct'' ''tok'')
         [example_transaction ''B'' ''acct'' False 25,
          example_transaction ''C'' ''acct'' False 30,
          example_transaction ''D'' ''acct'' True 40])
      example_db 0 10) = [''A''] \<and>
   map_option calls_of
     (sync 5 (PlaidSynchronizer_init ''acct'' ''tok'') window_client example_db 0 10
        False False False) =
     Some [SaveItemInfo example_info,
           SaveTransaction (example_transaction ''D'' ''acct'' True 40)] \<and>
   ArchiveTransactions [''A''] \<notin> set (calls_of (the
     (sync 5 (PlaidSynchronizer_init ''acct'' ''tok'') window_client example_db 0 10
        False False False)))"
proof -
  let ?s0 = "PlaidSynchronizer_init ''acct'' ''tok''"
  have r1: "map_option (map_sum id removed)
     (sync_transactions 5 cursor_client ''tok'' (Some ''c0'') None) = Some (Inr [''T3''])"
    by code_simp
  have r2: "tids_to_archive (reconcile_window
      (add_transactions ?s0
         [example_transaction ''B'' ''acct'' False 25,
          example_transaction ''C'' ''acct'' False 30,
          example_transaction ''D'' ''acct'' True 40])
      example_db 0 10) = [''A'']"
    by code_simp
  have c1: "map_option calls_of (sync 5 ?s0 cursor_client example_db 0 10 False False True) =
     Some [SaveItemInfo example_info,
           SaveTransaction (example_transaction ''T1'' ''acct'' True 1),
           SaveTransaction (example_transaction ''T2'' ''acct'' False 2),
           SaveTransaction (example_transaction ''T2'' ''acct'' False 3),
           SaveSyncCursor ''item'' ''c2'']"
    by code_simp
  have c2: "map_option calls_of (sync 5 ?s0 window_client example_db 0 10 False False False) =
     Some [SaveItemInfo example_info,
           SaveTransaction (example_transaction ''D'' ''acct'' True 40)]"
    by code_simp
  from c1 obtain out1 where
    o1: "sync 5 ?s0 cursor_client example_db 0 10 False False True = Some out1" by blast
  from c2 obtain out2 where
    o2: "sync 5 ?s0 window_client example_db 0 10 False False False = Some out2" by blast
  from archive_never_called [OF o1, of "[''T3'']"] archive_never_called [OF o2, of "[''A'']"]
    r1 r2 c1 c2 o1 o2
  show ?thesis by simp
qed

section \<open>Window mode: the id sets\<close>

text \<open>
  Claim C2. For every working map and store, the window reconciler takes the keys of the
  working map as the fetched ids and the store's ids for the window as the existing ids,
  computes \<open>new = fetched - existing\<close> and \<open>archived = existing - fetched\<close>, and the two
  differences are disjoint.
\<close>

theorem window_id_sets:
  "let w = reconcile_window self db sd ed in
     set (tids_fetched w) = fst ` set (transactions self) \<and>
     set (tids_existing w) = set (get_transaction_ids db sd ed (account_ids w)) \<and>
     set (tids_new w) = set (tids_fetched w) - set (tids_existing w) \<and>
     set (tids_to_archive w) = set (tids_existing w) - set (tids_fetched w) \<and>
     set (tids_new w) \<inter> set (tids_to_archive w) = {} \<and>
     distinct (tids_new w) \<and> distinct (tids_to_archive w)"
  by (auto simp: reconcile_window_def Let_def set_difference_def)

theorem window_id_sets_witness:
  "tids_fetched (reconcile_window
      (add_transactions (PlaidSynchronizer_init ''acct'' ''tok'')
         [example_transaction ''B'' ''acct'' False 25,
          example_transaction ''C'' ''acct'' False 30,
          example_transaction ''D'' ''acct'' True 40])
      example_db 0 10) = [''B'', ''C'', ''D''] \<and>
   tids_existing (reconcile_window
      (add_transactions (PlaidSynchronizer_init ''acct'' ''tok'')
         [example_transaction ''B'' ''acct'' False 25,
          example_transaction ''C'' ''acct'' False 30,
          example_transaction ''D'' ''acct'' True 40])
      example_db 0 10) = [''A'', ''B'', ''C''] \<and>
   set (tids_new (reconcile_window
      (add_transactions (PlaidSynchronizer_init ''acct'' ''tok'')
         [example_transaction ''B'' ''acct'' False 25,
          example_transaction ''C'' ''acct'' False 30,
          example_transaction ''D'' ''acct'' True 40])
      example_db 0 10)) = {''D''} \<and>
   set (tids_to_archive (reconcile_window
      (add_transactions (PlaidSynchronizer_init ''acct'' ''tok'')
         [example_transaction ''B'' ''acct'' False 25,
          example_transaction ''C'' ''acct'' False 30,
          example_transaction ''D'' ''acct'' True 40])
      example_db 0 10)) = {''A''}"
proof -
  let ?w = "reconcile_window
      (add_transactions (PlaidSynchronizer_init ''acct'' ''tok'')
         [example_transaction ''B'' ''acct'' False 25,
          example_transaction ''C'' ''acct'' False 30,
          example_transaction ''D'' ''acct'' True 40])
      example_db 0 10"
  have f: "tids_fetched ?w = [''B'', ''C'', ''D'']" by code_simp
  have e: "tids_existing ?w = [''A'', ''B'', ''C'']" by code_simp
  from window_id_sets [of "add_transactions (PlaidSynchronizer_init ''acct'' ''tok'')
         [example_transaction ''B'' ''acct'' False 25,
          example_transaction ''C'' ''acct'' False 30,
          example_transaction ''D'' ''acct'' True 40]" example_db 0 10]
  have "set (tids_new ?w) = set (tids_fetched ?w) - set (tids_existing ?w)"
    and "set (tids_to_archive ?w) = set (tids_existing ?w) - set (tids_fetched ?w)"
    by (simp_all add: Let_def)
  with f e show ?thesis by auto
qed

section \<open>Cursor mode: the counts\<close>

text \<open>
  Claim C7. A cursor-mode run that returns without error is not verbose (a verbose run
  leaves with the \<^verbatim>\<open>TypeError\<close> of its status callback, or records the provider
  error of the first page) and reports the counts of the result \<open>res\<close> of the page
  loop: \<open>new = |added|\<close>, \<open>archived = |removed|\<close>,
  \<open>total_fetched = |added| + |modified|\<close>, \<open>accounts\<close> the number of distinct account ids
  in added and modified, \<open>archived_pending = 0\<close>, and \<open>new_pending\<close> the number of added
  entries whose id is pending in the merged working map.
\<close>

theorem cursor_counts:
  assumes "sync_with_cursor fuel self client db fb v = Some (Returned self' calls)"
    and "plaid_error self = None" and "plaid_error self' = None"
  shows "\<not> v \<and>
         (\<exists>info res.
           get_item_info client (access_token self) = Inr info \<and>
           sync_transactions fuel client (access_token self)
             (get_last_sync_cursor db (item_id info)) None = Some (Inr res) \<and>
           new (counts self') = length (added res) \<and>
           archived (counts self') = length (removed res) \<and>
           total_fetched (counts self') = length (added res) + length (modified res) \<and>
           accounts (counts self') = card (account_id ` set (added res @ modified res)) \<and>
           archived_pending (counts self') = 0 \<and>
           new_pending (counts self') =
             length (filter (\<lambda>t. \<exists>t'. map_of (transactions self') (transaction_id t) = Some t'
                                       \<and> pending t') (added res)))"
  using assms(1)
proof (cases rule: sync_with_cursor_cases)
  case (failed e self1)
  with assms(3) show ?thesis by simp
next
  case type_error
  then show ?thesis by simp
next
  case (completed info balances res self2)
  have "count_pending self2 (map transaction_id (added res)) =
        length (filter (\<lambda>t. \<exists>t'. map_of (transactions self2) (transaction_id t) = Some t'
                                       \<and> pending t') (added res))"
    unfolding count_pending_def length_filter_map comp_def
    by (rule arg_cong [where f = length], rule filter_cong) (auto split: option.splits)
  with completed show ?thesis
    by (simp add: length_remdups_card_conv image_Un)
qed

theorem cursor_counts_witness:
  "sync_transactions 5 cursor_client ''tok'' (Some ''c0'') None =
     Some (Inr \<lparr> added = [example_transaction ''T1'' ''acct'' True 1,
                          example_transaction ''T2'' ''acct'' False 2],
                 modified = [example_transaction ''T2'' ''acct'' False 3],
                 removed = [''T3''], cursor = ''c2'', has_next = False \<rparr>) \<and>
   (\<exists>self' calls.
      sync_with_cursor 5 (PlaidSynchronizer_init ''acct'' ''tok'') cursor_client example_db
        False False = Some (Returned self' calls) \<and>
      plaid_error self' = None \<and>
      new (counts self') = 2 \<and> archived (counts self') = 1 \<and>
      total_fetched (counts self') = 3 \<and> accounts (counts self') = 1 \<and>
      archived_pending (counts self') = 0 \<and> new_pending (counts self') = 1)"
proof -
  let ?s0 = "PlaidSynchronizer_init ''acct'' ''tok''"
  let ?R = "\<lparr> added = [example_transaction ''T1'' ''acct'' True 1,
                       example_transaction ''T2'' ''acct'' False 2],
              modified = [example_transaction ''T2'' ''acct'' False 3],
              removed = [''T3''], cursor = ''c2'', has_next = False \<rparr>"
  have loop: "sync_transactions 5 cursor_client ''tok'' (Some ''c0'') None = Some (Inr ?R)"
    by code_simp
  have "case sync_with_cursor 5 ?s0 cursor_client example_db False False of
          Some (Returned s c) \<Rightarrow>
            plaid_error s = None \<and>
            map_of (transactions s) ''T1'' = Some (example_transaction ''T1'' ''acct'' True 1) \<and>
            map_of (transactions s) ''T2'' = Some (example_transaction ''T2'' ''acct'' False 3)
        | _ \<Rightarrow> False"
    by code_simp
  then obtain s1 c1 where
    run: "sync_with_cursor 5 ?s0 cursor_client example_db False False = Some (Returned s1 c1)"
    and ok: "plaid_error s1 = None"
    and t1: "map_of (transactions s1) ''T1'' = Some (example_transaction ''T1'' ''acct'' True 1)"
    and t2: "map_of (transactions s1) ''T2'' = Some (example_transaction ''T2'' ''acct'' False 3)"
    by (auto split: option.splits outcome.splits)
  have init: "plaid_error ?s0 = None" by simp
  have info: "get_item_info cursor_client (access_token ?s0) = Inr example_info"
    by code_simp
  have cur: "get_last_sync_cursor example_db (item_id example_info) = Some ''c0''"
    by code_simp
  have tx: "transaction_id (example_transaction ''T1'' ''acct'' True 1) = ''T1''"
    "transaction_id (example_transaction ''T2'' ''acct'' False 2) = ''T2''"
    "pending (example_transaction ''T1'' ''acct'' True 1)"
    "\<not> pending (example_transaction ''T2'' ''acct'' False 3)"
    "account_id (example_transaction ''T1'' ''acct'' True 1) = ''acct''"
    "account_id (example_transaction ''T2'' ''acct'' False 2) = ''acct''"
    "account_id (example_transaction ''T2'' ''acct'' False 3) = ''acct''"
    by (simp_all add: example_transaction_def)
  from cursor_counts [OF run init ok] info cur loop
  have "new (counts s1) = 2 \<and> archived (counts s1) = 1 \<and>
      total_fetched (counts s1) = 3 \<and> accounts (counts s1) = 1 \<and>
      archived_pending (counts s1) = 0 \<and> new_pending (counts s1) = 1"
    by (auto simp: t1 t2 tx)
  with loop run ok show ?thesis by blast
qed

section \<open>Cursor mode: the merged working map\<close>

text \<open>
  Claim C4, as stated, fails: the added lists of all pages are merged first and the
  modified lists of all pages after them, so an id that page 1 reports as modified and
  page 2 as added keeps the version of page 1.
\<close>

theorem latest_page_version_counterexample:
  "sync_transactions_pages 5 crossing_client ''tok'' (Some ''c0'') None =
     Some (Inr (\<lparr> added = [example_transaction ''X'' ''acct'' False 2],
                   modified = [example_transaction ''X'' ''acct'' False 1],
                   removed = [], cursor = ''c2'', has_next = False \<rparr>,
                [\<lparr> response_added = [],
                    response_modified = [example_transaction ''X'' ''acct'' False 1],
                    response_removed = [], next_cursor = ''c1'', has_more = True \<rparr>,
                 \<lparr> response_added = [example_transaction ''X'' ''acct'' False 2],
                    response_modified = [], response_removed = [],
                    next_cursor = ''c2'', has_more = False \<rparr>])) \<and>
   spec_latest_page_version
     [\<lparr> response_added = [],
         response_modified = [example_transaction ''X'' ''acct'' False 1],
         response_removed = [], next_cursor = ''c1'', has_more = True \<rparr>,
      \<lparr> response_added = [example_transaction ''X'' ''acct'' False 2],
         response_modified = [], response_removed = [],
         next_cursor = ''c2'', has_more = False \<rparr>] ''X'' =
     Some (example_transaction ''X'' ''acct'' False 2) \<and>
   sync_with_cursor 5 (PlaidSynchronizer_init ''acct'' ''tok'') crossing_client example_db
     False False =
     Some (Returned
       \<lparr> transactions = [(''X'', example_transaction ''X'' ''acct'' False 1)],
         account_name = ''acct'', access_token = ''tok'', plaid_error = None,
         item_info = Some example_info,
         counts = \<lparr> new = 1, new_pending = 0, archived = 0, archived_pending = 0,
                    total_fetched = 2, accounts = 1 \<rparr> \<rparr>
       [SaveItemInfo example_info,
        SaveTransaction (example_transaction ''X'' ''acct'' False 2),
        SaveTransaction (example_transaction ''X'' ''acct'' False 1),
        SaveSyncCursor ''item'' ''c2'']) \<and>
   map_of [(''X'', example_transaction ''X'' ''acct'' False 1)] ''X'' \<noteq>
     Some (example_transaction ''X'' ''acct'' False 2)"
  by code_simp

text \<open>
  Claim C4, amended. A cursor-mode run that returns without error is not verbose, and
  after it the working map holds for an id in some page's modified list the last such
  entry in page order (the latest page whose modified list has it); otherwise, for an
  id in some page's added list, the last such entry in page order; otherwise what it
  held before.
\<close>

theorem merged_map_order:
  assumes "sync_with_cursor fuel self client db fb v = Some (Returned self' calls)"
    and "plaid_error self = None" and "plaid_error self' = None"
  shows "\<not> v \<and>
         (\<exists>info res pages.
           get_item_info client (access_token self) = Inr info \<and>
           sync_transactions_pages fuel client (access_token self)
             (get_last_sync_cursor db (item_id info)) None = Some (Inr (res, pages)) \<and>
           (\<forall>k. map_of (transactions self') k =
              (let ms = filter (\<lambda>t. transaction_id t = k)
                          (concat (map response_modified pages));
                   as = filter (\<lambda>t. transaction_id t = k)
                          (concat (map response_added pages))
               in if ms \<noteq> [] then Some (last ms)
                  else if as \<noteq> [] then Some (last as)
                  else map_of (transactions self) k)))"
  using assms(1)
proof (cases rule: sync_with_cursor_cases)
  case (failed e self1)
  with assms(3) show ?thesis by simp
next
  case type_error
  then show ?thesis by simp
next
  case (completed info balances res self2)
  from completed(3,6) obtain pages where
    pages: "sync_transactions_pages fuel client (access_token self)
              (get_last_sync_cursor db (item_id info)) None = Some (Inr (res, pages))"
    by (auto simp: sync_transactions_Inr)
  from sync_transactions_loop_pages [OF pages [unfolded sync_transactions_pages_def]]
  have a: "added res = concat (map response_added pages)"
    and m: "modified res = concat (map response_modified pages)"
    by auto
  have "map_of (transactions self') k =
          (let ms = filter (\<lambda>t. transaction_id t = k) (modified res);
               as = filter (\<lambda>t. transaction_id t = k) (added res)
           in if ms \<noteq> [] then Some (last ms)
              else if as \<noteq> [] then Some (last as)
              else map_of (transactions self) k)" for k
    using completed(4,5)
    by (simp add: map_of_add_transactions map_add_def map_of_rev_last Let_def)
  with completed(1,6) pages show ?thesis
    unfolding a m by blast
qed

theorem merged_map_order_witness:
  "sync_transactions_pages 5 cursor_client ''tok'' (Some ''c0'') None =
     Some (Inr (\<lparr> added = [example_transaction ''T1'' ''acct'' True 1,
                            example_transaction ''T2'' ''acct'' False 2],
                   modified = [example_transaction ''T2'' ''acct'' False 3],
                   removed = [''T3''], cursor = ''c2'', has_next = False \<rparr>,
                [\<lparr> response_added = [example_transaction ''T1'' ''acct'' True 1,
                                      example_transaction ''T2'' ''acct'' False 2],
                    response_modified = [], response_removed = [],
                    next_cursor = ''c1'', has_more = True \<rparr>,
                 \<lparr> response_added = [],
                    response_modified = [example_transaction ''T2'' ''acct'' False 3],
                    response_removed = [''T3''],
                    next_cursor = ''c2'', has_more = False \<rparr>])) \<and>
   (\<exists>self' calls.
      sync_with_cursor 5 (PlaidSynchronizer_init ''acct'' ''tok'') cursor_client example_db
        False False = Some (Returned self' calls) \<and>
      plaid_error self' = None \<and>
      map_of (transactions self') ''T1'' = Some (example_transaction ''T1'' ''acct'' True 1) \<and>
      map_of (transactions self') ''T2'' = Some (example_transaction ''T2'' ''acct'' False 3) \<and>
      map_of (transactions self') ''T3'' = None)"
proof -
  let ?s0 = "PlaidSynchronizer_init ''acct'' ''tok''"
  let ?p1 = "\<lparr> response_added = [example_transaction ''T1'' ''acct'' True 1,
                                  example_transaction ''T2'' ''acct'' False 2],
                response_modified = [], response_removed = [],
                next_cursor = ''c1'', has_more = True \<rparr>"
  let ?p2 = "\<lparr> response_added = [],
                response_modified = [example_transaction ''T2'' ''acct'' False 3],
                response_removed = [''T3''],
                next_cursor = ''c2'', has_more = False \<rparr>"
  let ?R = "\<lparr> added = [example_transaction ''T1'' ''acct'' True 1,
                       example_transaction ''T2'' ''acct'' False 2],
              modified = [example_transaction ''T2'' ''acct'' False 3],
              removed = [''T3''], cursor = ''c2'', has_next = False \<rparr>"
  have loop: "sync_transactions_pages 5 cursor_client ''tok'' (Some ''c0'') None =
                Some (Inr (?R, [?p1, ?p2]))"
    by code_simp
  have "case sync_with_cursor 5 ?s0 cursor_client example_db False False of
          Some (Returned s c) \<Rightarrow> plaid_error s = None | _ \<Rightarrow> False"
    by code_simp
  then obtain s1 c1 where
    run: "sync_with_cursor 5 ?s0 cursor_client example_db False False = Some (Returned s1 c1)"
    and ok: "plaid_error s1 = None"
    by (auto split: option.splits outcome.splits)
  have init: "plaid_error ?s0 = None" "transactions ?s0 = []" by simp_all
  have info: "get_item_info cursor_client (access_token ?s0) = Inr example_info"
    by code_simp
  have cur: "get_last_sync_cursor example_db (item_id example_info) = Some ''c0''"
    by code_simp
  have tx: "transaction_id (example_transaction ''T1'' ''acct'' True 1) = ''T1''"
    "transaction_id (example_transaction ''T2'' ''acct'' False 2) = ''T2''"
    "transaction_id (example_transaction ''T2'' ''acct'' False 3) = ''T2''"
    by (simp_all add: example_transaction_def)
  from merged_map_order [OF run init(1) ok] info cur loop
  have merged: "map_of (transactions s1) k =
      (let ms = filter (\<lambda>t. transaction_id t = k) (concat (map response_modified [?p1, ?p2]));
           as = filter (\<lambda>t. transaction_id t = k) (concat (map response_added [?p1, ?p2]))
       in if ms \<noteq> [] then Some (last ms)
          else if as \<noteq> [] then Some (last as)
          else map_of (transactions ?s0) k)" for k
    by auto
  have "map_of (transactions s1) ''T1'' = Some (example_transaction ''T1'' ''acct'' True 1)"
    and "map_of (transactions s1) ''T2'' = Some (example_transaction ''T2'' ''acct'' False 3)"
    and "map_of (transactions s1) ''T3'' = None"
    unfolding merged by (simp_all add: tx init)
  with loop run ok show ?thesis by blast
qed

section \<open>Window mode: the page collector\<close>

text \<open>
  Claim C6, as stated, fails for \<open>N = 0\<close>: the loop body runs before the first test,
  so an empty listing costs one page request, where \<open>ceil(0 / 500) = 0\<close>.
\<close>

theorem empty_listing_counterexample:
  "transactions_get (paging_client [])
     \<lparr> req_access_token = ''tok'', req_start_date = 0, req_end_date = 10,
       req_count = 500, req_offset = 0, req_account_ids = None \<rparr> =
     Inr \<lparr> response_transactions = [], total_transactions = 0 \<rparr> \<and>
   get_transactions_requests 1 (paging_client []) ''tok'' 0 10 None =
     Some (Inr ([],
       [\<lparr> req_access_token = ''tok'', req_start_date = 0, req_end_date = 10,
           req_count = 500, req_offset = 0, req_account_ids = None \<rparr>])) \<and>
   length [\<lparr> req_access_token = ''tok'', req_start_date = 0, req_end_date = 10,
             req_count = 500, req_offset = 0, req_account_ids = None \<rparr>] \<noteq>
     (length ([] :: transaction list) + 500 - 1) div 500"
  by code_simp

text \<open>
  Claim C6, amended. Against a provider that serves correct pages of a listing of \<open>N\<close>
  transactions, the page loop with page size \<open>P > 0\<close> sends \<open>max 1 (ceil(N / P))\<close> page
  requests, at the offsets \<open>0, P, 2P, ...\<close>, and returns the \<open>N\<close> transactions in order,
  given fuel for that many iterations; \<^verbatim>\<open>get_transactions\<close> is the loop with \<open>P = 500\<close>.
\<close>

theorem page_collector_requests:
  assumes "0 < P"
    and "\<forall>req. transactions_get client req =
      Inr \<lparr> response_transactions = take (req_count req) (drop (req_offset req) txs),
            total_transactions = int (length txs) \<rparr>"
    and "max 1 ((length txs + P - 1) div P) \<le> fuel"
  shows "(\<exists>sent. get_transactions_loop fuel client tok sd ed aids P [] 0 [] =
                   Some (Inr (txs, sent)) \<and>
                 length sent = max 1 ((length txs + P - 1) div P) \<and>
                 map req_offset sent = map (\<lambda>i. i * P) [0..<length sent]) \<and>
         (P = 500 \<longrightarrow> get_transactions fuel client tok sd ed aids = Some (Inr txs))"
proof -
  from get_transactions_loop_serving [OF assms(1,2), of 0 "[]" fuel tok sd ed aids "[]"] assms(3)
  obtain sent where sent:
    "get_transactions_loop fuel client tok sd ed aids P [] 0 [] = Some (Inr (txs, sent))"
    "length sent = max 1 ((length txs + P - 1) div P)"
    "map req_offset sent = map (\<lambda>i. i * P) [0..<length sent]"
    by auto
  from sent(1)
  have "P = 500 \<longrightarrow> get_transactions fuel client tok sd ed aids = Some (Inr txs)"
    by (auto simp: get_transactions_def get_transactions_requests_def wrap_plaid_error_def)
  with sent show ?thesis by blast
qed

theorem page_collector_requests_witness:
  "get_transactions_loop 3 (paging_client five_transactions) ''tok'' 0 10 None 2 [] 0 [] =
     Some (Inr (five_transactions,
       [\<lparr> req_access_token = ''tok'', req_start_date = 0, req_end_date = 10,
           req_count = 2, req_offset = 0, req_account_ids = None \<rparr>,
        \<lparr> req_access_token = ''tok'', req_start_date = 0, req_end_date = 10,
           req_count = 2, req_offset = 2, req_account_ids = None \<rparr>,
        \<lparr> req_access_token = ''tok'', req_start_date = 0, req_end_date = 10,
           req_count = 2, req_offset = 4, req_account_ids = None \<rparr>])) \<and>
   max 1 ((length five_transactions + 2 - 1) div 2) = (3::nat) \<and>
   (\<exists>sent. get_transactions_loop 3 (paging_client five_transactions) ''tok'' 0 10 None
              2 [] 0 [] = Some (Inr (five_transactions, sent)) \<and>
           length sent = 3 \<and> map req_offset sent = [0, 2, 4]) \<and>
   get_transactions 1 (paging_client five_transactions) ''tok'' 0 10 None =
     Some (Inr five_transactions)"
proof -
  have serves: "\<forall>req. transactions_get (paging_client five_transactions) req =
      Inr \<lparr> response_transactions =
              take (req_count req) (drop (req_offset req) five_transactions),
            total_transactions = int (length five_transactions) \<rparr>"
    by (simp add: paging_client_def)
  have n2: "max 1 ((length five_transactions + 2 - 1) div 2) = (3::nat)"
    by code_simp
  have n500: "max 1 ((length five_transactions + 500 - 1) div 500) = (1::nat)"
    by code_simp
  have run: "get_transactions_loop 3 (paging_client five_transactions) ''tok'' 0 10 None
               2 [] 0 [] =
     Some (Inr (five_transactions,
       [\<lparr> req_access_token = ''tok'', req_start_date = 0, req_end_date = 10,
           req_count = 2, req_offset = 0, req_account_ids = None \<rparr>,
        \<lparr> req_access_token = ''tok'', req_start_date = 0, req_end_date = 10,
           req_count = 2, req_offset = 2, req_account_ids = None \<rparr>,
        \<lparr> req_access_token = ''tok'', req_start_date = 0, req_end_date = 10,
           req_count = 2, req_offset = 4, req_account_ids = None \<rparr>]))"
    by code_simp
  have upt: "map (\<lambda>i. i * 2) [0..<3] = [0, 2, 4::nat]"
    by code_simp
  have fuel2: "max 1 ((length five_transactions + 2 - 1) div 2) \<le> (3::nat)"
    unfolding n2 by simp
  have fuel500: "max 1 ((length five_transactions + 500 - 1) div 500) \<le> (1::nat)"
    unfolding n500 by simp
  have P2: "(0::nat) < 2" and P500: "(0::nat) < 500" by simp_all
  from page_collector_requests [OF P2 serves fuel2, of "''tok''" 0 10 None]
  obtain sent where
    "get_transactions_loop 3 (paging_client five_transactions) ''tok'' 0 10 None
       2 [] 0 [] = Some (Inr (five_transactions, sent))"
    "length sent = max 1 ((length five_transactions + 2 - 1) div 2)"
    "map req_offset sent = map (\<lambda>i. i * 2) [0..<length sent]"
    by blast
  then have "\<exists>sent. get_transactions_loop 3 (paging_client five_transactions) ''tok'' 0 10 None
              2 [] 0 [] = Some (Inr (five_transactions, sent)) \<and>
           length sent = 3 \<and> map req_offset sent = [0, 2, 4]"
    unfolding n2 using upt by (intro exI [of _ sent]) (simp only: simp_thms)
  moreover
  from page_collector_requests [OF P500 serves fuel500, of "''tok''" 0 10 None]
  have "get_transactions 1 (paging_client five_transactions) ''tok'' 0 10 None =
          Some (Inr five_transactions)"
    by blast
  ultimately show ?thesis using run n2 by blast
qed

section \<open>Window mode: what is persisted\<close>

text \<open>
  Claim C5, as stated, fails: \<open>B\<close> is stored as pending with amount 20 and fetched again
  as settled with amount 25; the run saves only the new \<open>D\<close>, and the store still holds
  the old \<open>B\<close> afterwards.
\<close>

theorem refetched_not_persisted_counterexample:
  "map_of (stored_transactions example_db) ''B'' =
     Some (example_transaction ''B'' ''acct'' True 20) \<and>
   get_transactions 5 window_client ''tok'' 0 10 None =
     Some (Inr [example_transaction ''B'' ''acct'' False 25,
                example_transaction ''C'' ''acct'' False 30,
                example_transaction ''D'' ''acct'' True 40]) \<and>
   sync 5 (PlaidSynchronizer_init ''acct'' ''tok'') window_client example_db 0 10
     False False False =
     Some (Returned
       \<lparr> transactions =
           [(''B'', example_transaction ''B'' ''acct'' False 25),
            (''C'', example_transaction ''C'' ''acct'' False 30),
            (''D'', example_transaction ''D'' ''acct'' True 40),
            (''A'', example_transaction ''A'' ''acct'' False 10)],
         account_name = ''acct'', access_token = ''tok'', plaid_error = None,
         item_info = Some example_info,
         counts = \<lparr> new = 1, new_pending = 1, archived = 1, archived_pending = 0,
                    total_fetched = 3, accounts = 1 \<rparr> \<rparr>
       [SaveItemInfo example_info,
        SaveTransaction (example_transaction ''D'' ''acct'' True 40)]) \<and>
   map_of (stored_transactions
     (db_run [SaveItemInfo example_info,
              SaveTransaction (example_transaction ''D'' ''acct'' True 40)] example_db)) ''B'' =
     Some (example_transaction ''B'' ''acct'' True 20) \<and>
   example_transaction ''B'' ''acct'' False 25 \<noteq> example_transaction ''B'' ''acct'' True 20"
  by code_simp

text \<open>
  Claim C5, amended. A window-mode run saves only transactions whose id is fetched and
  not already stored for the window; the stored record of every id already stored for
  the window is left as it is; and a run that returns without error saves, for every
  new id, the entry the working map holds for it.
\<close>

theorem window_saves_new_ids_only:
  assumes "sync fuel (PlaidSynchronizer_init name token) client db sd ed fb v False = Some out"
    and "get_item_info client token = Inr info"
    and "get_transactions fuel client token sd ed None = Some (Inr fetched)"
    and "w = reconcile_window
               (add_transactions ((PlaidSynchronizer_init name token)\<lparr>item_info := Some info\<rparr>)
                  fetched) db sd ed"
  shows "(\<forall>t. SaveTransaction t \<in> set (calls_of out) \<longrightarrow>
            transaction_id t \<in> set (tids_fetched w) \<and>
            transaction_id t \<notin> set (tids_existing w)) \<and>
         (\<forall>tid \<in> set (tids_existing w).
            map_of (stored_transactions (db_run (calls_of out) db)) tid =
            map_of (stored_transactions db) tid) \<and>
         (\<forall>self' calls. out = Returned self' calls \<and> plaid_error self' = None \<longrightarrow>
            (\<forall>tid \<in> set (tids_new w).
               \<exists>t. map_of (transactions self') tid = Some t \<and> transaction_id t = tid \<and>
                   SaveTransaction t \<in> set calls))"
proof -
  let ?s0 = "PlaidSynchronizer_init name token"
  have new: "set (tids_new w) = set (tids_fetched w) - set (tids_existing w)"
    unfolding assms(4) by (auto simp: reconcile_window_def Let_def set_difference_def)
  have saved: "(\<forall>t. SaveTransaction t \<in> set (calls_of out) \<longrightarrow>
                  transaction_id t \<in> set (tids_new w)) \<and>
         (\<forall>self' calls. out = Returned self' calls \<and> plaid_error self' = None \<longrightarrow>
            (\<forall>tid \<in> set (tids_new w).
               \<exists>t. map_of (transactions self') tid = Some t \<and> transaction_id t = tid \<and>
                   SaveTransaction t \<in> set calls))"
    using assms(1)
  proof (cases rule: sync_window_cases)
    case (failed e self1)
    then show ?thesis by simp
  next
    case type_error
    then show ?thesis by simp
  next
    case (completed info' balances fetched' self2 w' self3)
    from completed(1,3) assms(2,3) have same: "info' = info" "fetched' = fetched"
      by simp_all
    from completed(4,5) assms(4) have w': "w' = w"
      unfolding same by simp
    have keyed: "transaction_id t = k" if "map_of (transactions self3) k = Some t" for k t
      using that unfolding completed(6) completed(4)
      by (auto elim!: add_transactions_keyed [rotated])
    have keys: "set (tids_new w) \<subseteq> fst ` set (transactions self3)"
      using reconcile_window_sets [of self2 db sd ed]
      unfolding completed(6) keys_add_transactions completed(5) [symmetric] w' by auto
    have entry: "\<exists>t. map_of (transactions self3) tid = Some t \<and> transaction_id t = tid"
      if "tid \<in> set (tids_new w)" for tid
    proof -
      from that keys have "map_of (transactions self3) tid \<noteq> None"
        by (auto simp: map_of_eq_None_iff)
      then show ?thesis using keyed by auto
    qed
    have calls: "calls_of out =
        SaveItemInfo info # save_balances (item_id info) balances
        @ map (\<lambda>tid. SaveTransaction (the (map_of (transactions self3) tid))) (tids_new w)"
      using completed(7) unfolding w' same by simp
    have "transaction_id t \<in> set (tids_new w)" if "SaveTransaction t \<in> set (calls_of out)" for t
    proof -
      from that obtain tid where "tid \<in> set (tids_new w)"
        "t = the (map_of (transactions self3) tid)"
        unfolding calls by (auto dest: save_balances_calls)
      with entry [of tid] show ?thesis by auto
    qed
    moreover have "\<exists>t. map_of (transactions self') tid = Some t \<and> transaction_id t = tid \<and>
                   SaveTransaction t \<in> set calls'"
      if "out = Returned self' calls'" "tid \<in> set (tids_new w)" for self' calls' tid
    proof -
      from that(1) completed(7) have "transactions self' = transactions self3"
        and "calls' = calls_of out"
        by auto
      with entry [OF that(2)] that(2) show ?thesis
        unfolding calls by force
    qed
    ultimately show ?thesis by blast
  qed
  have "map_of (stored_transactions (db_run (calls_of out) db)) tid =
          map_of (stored_transactions db) tid" if "tid \<in> set (tids_existing w)" for tid
  proof (rule db_run_stored_transactions)
    fix t
    assume "SaveTransaction t \<in> set (calls_of out)"
    with saved have "transaction_id t \<in> set (tids_new w)" by blast
    with new that show "transaction_id t \<noteq> tid" by auto
  qed
  with saved new show ?thesis by auto
qed

theorem window_saves_new_ids_only_witness:
  "tids_existing (reconcile_window
      (add_transactions
         ((PlaidSynchronizer_init ''acct'' ''tok'')\<lparr>item_info := Some example_info\<rparr>)
         [example_transaction ''B'' ''acct'' False 25,
          example_transaction ''C'' ''acct'' False 30,
          example_transaction ''D'' ''acct'' True 40])
      example_db 0 10) = [''A'', ''B'', ''C''] \<and>
   tids_new (reconcile_window
      (add_transactions
         ((PlaidSynchronizer_init ''acct'' ''tok'')\<lparr>item_info := Some example_info\<rparr>)
         [example_transaction ''B'' ''acct'' False 25,
          example_transaction ''C'' ''acct'' False 30,
          example_transaction ''D'' ''acct'' True 40])
      example_db 0 10) = [''D''] \<and>
   (\<exists>self' calls.
      sync 5 (PlaidSynchronizer_init ''acct'' ''tok'') window_client example_db 0 10
        False False False = Some (Returned self' calls) \<and>
      plaid_error self' = None \<and>
      SaveTransaction (example_transaction ''D'' ''acct'' True 40) \<in> set calls \<and>
      SaveTransaction (example_transaction ''B'' ''acct'' False 25) \<notin> set calls \<and>
      map_of (transactions self') ''D'' = Some (example_transaction ''D'' ''acct'' True 40) \<and>
      map_of (stored_transactions (db_run calls example_db)) ''B'' =
        map_of (stored_transactions example_db) ''B'')"
proof -
  let ?s0 = "PlaidSynchronizer_init ''acct'' ''tok''"
  let ?fetched = "[example_transaction ''B'' ''acct'' False 25,
                   example_transaction ''C'' ''acct'' False 30,
                   example_transaction ''D'' ''acct'' True 40]"
  let ?w = "reconcile_window (add_transactions (?s0\<lparr>item_info := Some example_info\<rparr>) ?fetched)
              example_db 0 10"
  have ex: "tids_existing ?w = [''A'', ''B'', ''C'']" by code_simp
  have nw: "tids_new ?w = [''D'']" by code_simp
  have info: "get_item_info window_client ''tok'' = Inr example_info" by code_simp
  have fetched: "get_transactions 5 window_client ''tok'' 0 10 None = Some (Inr ?fetched)"
    by code_simp
  have "case sync 5 ?s0 window_client example_db 0 10 False False False of
          Some (Returned s c) \<Rightarrow>
            plaid_error s = None \<and>
            map_of (transactions s) ''D'' = Some (example_transaction ''D'' ''acct'' True 40)
        | _ \<Rightarrow> False"
    by code_simp
  then obtain s1 c1 where
    run: "sync 5 ?s0 window_client example_db 0 10 False False False = Some (Returned s1 c1)"
    and ok: "plaid_error s1 = None"
    and d: "map_of (transactions s1) ''D'' = Some (example_transaction ''D'' ''acct'' True 40)"
    by (auto split: option.splits outcome.splits)
  have idB: "transaction_id (example_transaction ''B'' ''acct'' False 25) = ''B''"
    by (simp add: example_transaction_def)
  note inst = window_saves_new_ids_only [OF run info fetched refl]
  from inst ok nw have "\<exists>t. map_of (transactions s1) ''D'' = Some t \<and>
      SaveTransaction t \<in> set c1"
    by fastforce
  with d have savedD: "SaveTransaction (example_transaction ''D'' ''acct'' True 40) \<in> set c1"
    by simp
  from inst ex idB
  have notB: "SaveTransaction (example_transaction ''B'' ''acct'' False 25) \<notin> set c1"
    by fastforce
  from inst ex
  have keptB: "map_of (stored_transactions (db_run c1 example_db)) ''B'' =
        map_of (stored_transactions example_db) ''B''"
    by simp
  from ex nw run ok savedD notB d keptB show ?thesis by blast
qed

end
